theory Spec2Isabelle
  imports Main "HOL-Library.Word"
begin

unbundle bit_operations_syntax

section \<open>CComputeRenderPass: dirty tracking and compile on demand\<close>

text \<open>
  The development embeds \<^verbatim>\<open>ComputeRenderPass.cpp\<close>. The pass is a record of its
  member variables; every member function takes the pass and returns the updated pass.
  The collaborators the pass calls into (device object factory, resource set object,
  shader constant manager, command list, pass scheduler, profiling) are not part of the
  translated file: their behaviour is a parameter (the record \<open>device\<close> of functions),
  and the calls made on them are recorded in the order the code makes them.
\<close>

type_synonym uint32 = "32 word"
type_synonym uint64 = "64 word"
type_synonym handle = nat

subsection \<open>Constants of the headers\<close>

text \<open>Modelled from the spec: the enumeration of dirty flags is declared in
  \<^verbatim>\<open>ComputeRenderPass.h\<close>, which is not among the sources. The spec gives the
  flags None, Resources, Technique, ResourceLayout and All, where None has no bit and
  All implies every other flag; each of the three proper flags is one bit.\<close>

definition eDirty_None :: uint32 where
  "eDirty_None = 0"

definition eDirty_ResourceLayout :: uint32 where
  "eDirty_ResourceLayout = 1"

definition eDirty_Resources :: uint32 where
  "eDirty_Resources = 2"

definition eDirty_Technique :: uint32 where
  "eDirty_Technique = 4"

definition eDirty_All :: uint32 where
  "eDirty_All = eDirty_Technique OR eDirty_Resources OR eDirty_ResourceLayout"

text \<open>Modelled from the spec: the pass flags are declared in the same absent header;
  the spec only speaks of a pass "configured to reflect constants from shader".\<close>

definition eFlags_None :: uint32 where
  "eFlags_None = 0"

definition eFlags_ReflectConstantBuffersFromShader :: uint32 where
  "eFlags_ReflectConstantBuffersFromShader = 1"

text \<open>Modelled from the spec: the flag a resource passes to the invalidation callback
  when it is destroyed, the compute shader stage and the creation flag of the resource
  set are declared in absent headers; each is one bit.\<close>

definition eResourceDestroyed :: uint32 where
  "eResourceDestroyed = 4"

definition EShaderStage_Compute :: uint32 where
  "EShaderStage_Compute = 8"

definition EFlags_ForceSetAllState :: uint32 where
  "EFlags_ForceSetAllState = 1"

subsection \<open>Data\<close>

text \<open>An inline constant buffer as the constant manager lists it (\<open>cb.pBuffer\<close>,
  \<open>cb.shaderSlot\<close>, \<open>cb.shaderStages\<close>).\<close>

record SConstantBufferBindInfo =
  pBuffer :: handle
  shaderSlot :: int
  shaderStages :: uint32

text \<open>Modelled from the spec: \<open>CDeviceResourceSetDesc\<close> is an ordered mapping from
  bind point to binding; its class body is not among the sources. Bind points and
  bindings are kept as keys, and \<open>Clear\<close> empties the mapping.\<close>

type_synonym CDeviceResourceSetDesc = "(nat \<times> nat) list"

definition Clear :: "CDeviceResourceSetDesc \<Rightarrow> CDeviceResourceSetDesc" where
  "Clear d = []"

text \<open>Modelled from the spec: \<open>SDeviceResourceLayoutDesc\<close> is an ordered list of
  (bind slot, resource set description) and (bind slot, shader slot, shader stages)
  entries; its setters are not among the sources. Each setter adds its entry.\<close>

datatype SLayoutEntry =
    Layout_ResourceSet int CDeviceResourceSetDesc
  | Layout_ConstantBuffer int int uint32

type_synonym SDeviceResourceLayoutDesc = "SLayoutEntry list"

definition SetResourceSet ::
  "int \<Rightarrow> CDeviceResourceSetDesc \<Rightarrow> SDeviceResourceLayoutDesc \<Rightarrow> SDeviceResourceLayoutDesc" where
  "SetResourceSet bindSlot desc l = l @ [Layout_ResourceSet bindSlot desc]"

definition SetConstantBuffer ::
  "int \<Rightarrow> int \<Rightarrow> uint32 \<Rightarrow> SDeviceResourceLayoutDesc \<Rightarrow> SDeviceResourceLayoutDesc" where
  "SetConstantBuffer bindSlot slot stages l = l @ [Layout_ConstantBuffer bindSlot slot stages]"

text \<open>The key of a compute pipeline state, as the constructor call
  \<open>psoDesc(m_pResourceLayout, m_pShader, m_techniqueName, m_rtMask, 0, 0)\<close> fills it.\<close>

record CDeviceComputePSODesc =
  desc_pResourceLayout :: "handle option"
  desc_pShader :: "handle option"
  desc_technique :: uint32
  desc_rtMask :: uint64
  desc_mdMask :: uint32
  desc_mdvMask :: uint32

text \<open>A pipeline state object, with the two queries the pass makes on it.\<close>

record CDeviceComputePSO =
  pso_handle :: handle
  IsValid :: bool
  GetUpdateCount :: int

text \<open>The calls recorded on a command list.\<close>

datatype command =
    Cmd_PrepareResourcesForUse int "nat option"
  | Cmd_PrepareInlineConstantBufferForUse int handle int uint32
  | Cmd_SetResourceLayout "handle option"
  | Cmd_SetPipelineState "CDeviceComputePSO option"
  | Cmd_SetResources int "nat option"
  | Cmd_SetInlineConstantBuffer int handle int
  | Cmd_Dispatch uint32 uint32 uint32
  | Cmd_BeginProfilingSection
  | Cmd_EndProfilingSection

text \<open>The calls \<open>Compile\<close> makes on the resource set and on the device object factory,
  each with its arguments and with what it returned.\<close>

datatype device_call =
    Call_Update CDeviceResourceSetDesc uint32 bool
  | Call_CreateResourceLayout SDeviceResourceLayoutDesc "handle option"
  | Call_CreateComputePSO CDeviceComputePSODesc "CDeviceComputePSO option"

text \<open>
  The collaborators. A resource set object and the state of the shader constant manager
  are opaque (a \<open>nat\<close>); \<open>Update\<close> returns its boolean and the object as it leaves it;
  a factory function returns \<open>None\<close> for a null pointer.
\<close>

record device =
  CreateResourceSet :: "uint32 \<Rightarrow> nat option"
  Update :: "CDeviceResourceSetDesc \<Rightarrow> uint32 \<Rightarrow> nat \<Rightarrow> bool \<times> nat"
  CreateResourceLayout :: "SDeviceResourceLayoutDesc \<Rightarrow> handle option"
  CreateComputePSO :: "CDeviceComputePSODesc \<Rightarrow> CDeviceComputePSO option"
  ConstantManager_New :: nat
  ReleaseShaderReflection :: "nat \<Rightarrow> nat"
  AllocateShaderReflection :: "handle option \<Rightarrow> uint32 \<Rightarrow> uint64 \<Rightarrow> uint32 \<Rightarrow> nat \<Rightarrow> nat"
  InitShaderReflection :: "CDeviceComputePSO \<Rightarrow> nat \<Rightarrow> nat"
  BeginNamedConstantUpdate :: "nat \<Rightarrow> nat"
  EndNamedConstantUpdate :: "nat \<Rightarrow> nat"
  ConstantManager_Reset :: "nat \<Rightarrow> nat"
  GetBuffers :: "nat \<Rightarrow> SConstantBufferBindInfo list"
  ENABLE_PROFILING_CODE :: bool
  EndProfilingSection :: "command list \<Rightarrow> nat"
  ProfilingStats_Merge :: "nat \<Rightarrow> nat \<Rightarrow> nat"
  ProfilingStats_Reset :: "nat \<Rightarrow> nat"
  Scheduler_IsActive :: bool

text \<open>The member variables of \<open>CComputeRenderPass\<close>. A smart pointer is an option
  (\<open>None\<close> is the null pointer).\<close>

record pass =
  m_label :: string
  m_flags :: uint32
  m_dirtyMask :: uint32
  m_bResourcesInvalidated :: bool
  m_pShader :: "handle option"
  m_techniqueName :: uint32
  m_rtMask :: uint64
  m_dispatchSizeX :: uint32
  m_dispatchSizeY :: uint32
  m_dispatchSizeZ :: uint32
  m_currentPsoUpdateCount :: int
  m_bPendingConstantUpdate :: bool
  m_bCompiled :: bool
  m_resourceDesc :: CDeviceResourceSetDesc
  m_inputVars :: "int list"
  m_pResourceSet :: "nat option"
  m_pResourceLayout :: "handle option"
  m_pPipelineState :: "CDeviceComputePSO option"
  m_constantManager :: nat
  m_profilingStats :: nat

text \<open>Calling a member function through a null smart pointer.\<close>

datatype error = NullPointerDereference

subsection \<open>The member functions\<close>

text \<open>\<open>OnResourceInvalidated\<close> returns the pass and the boolean the callback returns.\<close>

definition OnResourceInvalidated :: "pass \<Rightarrow> uint32 \<Rightarrow> pass \<times> bool" where
  "OnResourceInvalidated pThis flags =
     (pThis\<lparr>m_dirtyMask := m_dirtyMask pThis OR eDirty_Resources\<rparr>,
      \<not> (flags AND eResourceDestroyed \<noteq> 0))"

definition CComputeRenderPass :: "device \<Rightarrow> uint32 \<Rightarrow> pass" where
  "CComputeRenderPass dev flags =
     \<lparr> m_label = ''COMPUTE_PASS'',
       m_flags = flags,
       m_dirtyMask = eDirty_All,
       m_bResourcesInvalidated = False,
       m_pShader = None,
       m_techniqueName = 0,
       m_rtMask = 0,
       m_dispatchSizeX = 1,
       m_dispatchSizeY = 1,
       m_dispatchSizeZ = 1,
       m_currentPsoUpdateCount = 0,
       m_bPendingConstantUpdate = False,
       m_bCompiled = False,
       m_resourceDesc = [],
       m_inputVars = [0, 0, 0, 0],
       m_pResourceSet = CreateResourceSet dev EFlags_ForceSetAllState,
       m_pResourceLayout = None,
       m_pPipelineState = None,
       m_constantManager = ConstantManager_New dev,
       m_profilingStats = 0 \<rparr>"

text \<open>The loop of \<open>Compile\<close> over the inline constant buffers; \<open>bindSlot++\<close> is the
  first argument.\<close>

fun SetConstantBuffers ::
  "int \<Rightarrow> SConstantBufferBindInfo list \<Rightarrow> SDeviceResourceLayoutDesc \<Rightarrow> SDeviceResourceLayoutDesc" where
  "SetConstantBuffers bindSlot [] l = l"
| "SetConstantBuffers bindSlot (cb # cbs) l =
     SetConstantBuffers (bindSlot + 1) cbs (SetConstantBuffer bindSlot (shaderSlot cb) (shaderStages cb) l)"

text \<open>The end of \<open>Compile\<close>, reached when no step has returned early.\<close>

definition Compile_Done ::
  "pass \<Rightarrow> device_call list \<Rightarrow> uint32 \<times> pass \<times> device_call list" where
  "Compile_Done p calls = (eDirty_None, p\<lparr>m_bCompiled := True\<rparr>, calls)"

text \<open>The block "Pipeline state" of \<open>Compile\<close> and what follows it.\<close>

definition Compile_PipelineState ::
  "device \<Rightarrow> uint32 \<Rightarrow> pass \<Rightarrow> device_call list \<Rightarrow> uint32 \<times> pass \<times> device_call list" where
  "Compile_PipelineState dev dirtyMask p calls =
     (if dirtyMask AND (eDirty_Technique OR eDirty_ResourceLayout) \<noteq> 0 then
        let psoDesc = \<lparr> desc_pResourceLayout = m_pResourceLayout p,
                        desc_pShader = m_pShader p,
                        desc_technique = m_techniqueName p,
                        desc_rtMask = m_rtMask p,
                        desc_mdMask = 0,
                        desc_mdvMask = 0 \<rparr>;
            p1 = p\<lparr>m_pPipelineState := CreateComputePSO dev psoDesc\<rparr>;
            calls1 = calls @ [Call_CreateComputePSO psoDesc (m_pPipelineState p1)]
        in case m_pPipelineState p1 of
             None \<Rightarrow> (dirtyMask, p1, calls1)
           | Some pso \<Rightarrow>
               if \<not> IsValid pso then (dirtyMask, p1, calls1)
               else
                 let p2 = p1\<lparr>m_currentPsoUpdateCount := GetUpdateCount pso\<rparr>;
                     p3 = (if m_flags p2 AND eFlags_ReflectConstantBuffersFromShader \<noteq> 0
                           then p2\<lparr>m_constantManager := InitShaderReflection dev pso (m_constantManager p2)\<rparr>
                           else p2)
                 in Compile_Done p3 calls1
      else Compile_Done p calls)"

text \<open>The block "Resource layout" of \<open>Compile\<close> and what follows it.\<close>

definition Compile_ResourceLayout ::
  "device \<Rightarrow> uint32 \<Rightarrow> pass \<Rightarrow> device_call list \<Rightarrow> uint32 \<times> pass \<times> device_call list" where
  "Compile_ResourceLayout dev dirtyMask p calls =
     (if dirtyMask AND (eDirty_Technique OR eDirty_ResourceLayout) \<noteq> 0 then
        let p1 = p\<lparr>m_constantManager := ReleaseShaderReflection dev (m_constantManager p)\<rparr>;
            p2 = (if m_flags p1 AND eFlags_ReflectConstantBuffersFromShader \<noteq> 0
                  then p1\<lparr>m_constantManager :=
                         AllocateShaderReflection dev (m_pShader p1) (m_techniqueName p1) (m_rtMask p1)
                           EShaderStage_Compute (m_constantManager p1)\<rparr>
                  else p1);
            resourceLayoutDesc =
              SetConstantBuffers 1 (GetBuffers dev (m_constantManager p2))
                (SetResourceSet 0 (m_resourceDesc p2) []);
            p3 = p2\<lparr>m_pResourceLayout := CreateResourceLayout dev resourceLayoutDesc\<rparr>;
            calls1 = calls @ [Call_CreateResourceLayout resourceLayoutDesc (m_pResourceLayout p3)]
        in if m_pResourceLayout p3 = None then (dirtyMask, p3, calls1)
           else Compile_PipelineState dev dirtyMask p3 calls1
      else Compile_PipelineState dev dirtyMask p calls)"

text \<open>\<open>Compile\<close> returns the mask it returns, the pass and the calls made so far; it
  does not assign \<open>m_dirtyMask\<close> (its callers do).\<close>

definition Compile ::
  "device \<Rightarrow> pass \<Rightarrow> device_call list \<Rightarrow> error + (uint32 \<times> pass \<times> device_call list)" where
  "Compile dev p calls =
     (let dirtyMask = m_dirtyMask p OR (if m_bResourcesInvalidated p then eDirty_Resources else eDirty_None);
          p1 = p\<lparr>m_bResourcesInvalidated := False, m_bCompiled := False\<rparr>
      in if dirtyMask AND eDirty_Resources \<noteq> 0 then
           (case m_pResourceSet p1 of
              None \<Rightarrow> Inl NullPointerDereference
            | Some rs \<Rightarrow>
                let updateFlags = dirtyMask AND (eDirty_Resources OR eDirty_ResourceLayout);
                    r = Update dev (m_resourceDesc p1) updateFlags rs;
                    p2 = p1\<lparr>m_pResourceSet := Some (snd r)\<rparr>;
                    calls1 = calls @ [Call_Update (m_resourceDesc p1) updateFlags (fst r)]
                in if \<not> fst r then Inr (dirtyMask, p2, calls1)
                   else Inr (Compile_ResourceLayout dev dirtyMask p2 calls1))
         else Inr (Compile_ResourceLayout dev dirtyMask p1 calls))"

text \<open>Modelled from the spec: \<open>IsDirty\<close> is defined in the absent header; the spec calls
  a pass dirty when its dirty mask is not None.\<close>

definition IsDirty :: "pass \<Rightarrow> bool" where
  "IsDirty p = (m_dirtyMask p \<noteq> eDirty_None)"

definition BeginConstantUpdate ::
  "device \<Rightarrow> pass \<Rightarrow> device_call list \<Rightarrow> error + (pass \<times> device_call list)" where
  "BeginConstantUpdate dev p calls =
     (if m_flags p AND eFlags_ReflectConstantBuffersFromShader \<noteq> 0 then
        (case (if IsDirty p
               then (case Compile dev p calls of
                       Inl e \<Rightarrow> Inl e
                     | Inr (ret, p1, calls1) \<Rightarrow> Inr (p1\<lparr>m_dirtyMask := ret\<rparr>, calls1))
               else Inr (p, calls)) of
           Inl e \<Rightarrow> Inl e
         | Inr (p2, calls2) \<Rightarrow>
             Inr (p2\<lparr>m_bPendingConstantUpdate := True,
                     m_constantManager := BeginNamedConstantUpdate dev (m_constantManager p2)\<rparr>, calls2))
      else Inr (p, calls))"

text \<open>The loop of \<open>PrepareResourcesForUse\<close> over the inline constant buffers.\<close>

fun PrepareInlineConstantBuffers ::
  "int \<Rightarrow> SConstantBufferBindInfo list \<Rightarrow> command list \<Rightarrow> command list" where
  "PrepareInlineConstantBuffers bindSlot [] commandList = commandList"
| "PrepareInlineConstantBuffers bindSlot (cb # cbs) commandList =
     PrepareInlineConstantBuffers (bindSlot + 1) cbs
       (commandList @ [Cmd_PrepareInlineConstantBufferForUse bindSlot (pBuffer cb) (shaderSlot cb)
                         EShaderStage_Compute])"

text \<open>\<open>CRY_ASSERT\<close> reports and continues, and is compiled out of release builds: the
  assertion in the first branch changes nothing.\<close>

definition PrepareResourcesForUse ::
  "device \<Rightarrow> pass \<Rightarrow> command list \<Rightarrow> device_call list \<Rightarrow>
   error + (pass \<times> command list \<times> device_call list)" where
  "PrepareResourcesForUse dev p commandList calls =
     (case (if m_bPendingConstantUpdate p then
              Inr (p\<lparr>m_constantManager := EndNamedConstantUpdate dev (m_constantManager p),
                     m_bPendingConstantUpdate := False\<rparr>, calls)
            else if IsDirty p then
              (case Compile dev p calls of
                 Inl e \<Rightarrow> Inl e
               | Inr (ret, p1, calls1) \<Rightarrow> Inr (p1\<lparr>m_dirtyMask := ret\<rparr>, calls1))
            else Inr (p, calls)) of
        Inl e \<Rightarrow> Inl e
      | Inr (p2, calls2) \<Rightarrow>
          if m_dirtyMask p2 = eDirty_None then
            Inr (p2,
                 PrepareInlineConstantBuffers 1 (GetBuffers dev (m_constantManager p2))
                   (commandList @ [Cmd_PrepareResourcesForUse 0 (m_pResourceSet p2)]),
                 calls2)
          else Inr (p2, commandList, calls2))"

definition BeginRenderPass :: "device \<Rightarrow> pass \<Rightarrow> command list \<Rightarrow> pass \<times> command list" where
  "BeginRenderPass dev p commandList =
     (if ENABLE_PROFILING_CODE dev then (p, commandList @ [Cmd_BeginProfilingSection])
      else (p, commandList))"

definition EndRenderPass :: "device \<Rightarrow> pass \<Rightarrow> command list \<Rightarrow> pass \<times> command list" where
  "EndRenderPass dev p commandList =
     (if ENABLE_PROFILING_CODE dev then
        (p\<lparr>m_profilingStats :=
             ProfilingStats_Merge dev (m_profilingStats p) (EndProfilingSection dev commandList)\<rparr>,
         commandList @ [Cmd_EndProfilingSection])
      else (p, commandList))"

text \<open>The loop of \<open>Dispatch\<close> over the inline constant buffers.\<close>

fun SetInlineConstantBuffers ::
  "int \<Rightarrow> SConstantBufferBindInfo list \<Rightarrow> command list \<Rightarrow> command list" where
  "SetInlineConstantBuffers bindSlot [] commandList = commandList"
| "SetInlineConstantBuffers bindSlot (cb # cbs) commandList =
     SetInlineConstantBuffers (bindSlot + 1) cbs
       (commandList @ [Cmd_SetInlineConstantBuffer bindSlot (pBuffer cb) (shaderSlot cb)])"

definition Dispatch :: "device \<Rightarrow> pass \<Rightarrow> command list \<Rightarrow> uint32 \<Rightarrow> pass \<times> command list" where
  "Dispatch dev p commandList srvUsage =
     (if m_dirtyMask p = eDirty_None then
        (p,
         SetInlineConstantBuffers 1 (GetBuffers dev (m_constantManager p))
           (commandList @ [Cmd_SetResourceLayout (m_pResourceLayout p),
                           Cmd_SetPipelineState (m_pPipelineState p),
                           Cmd_SetResources 0 (m_pResourceSet p)])
         @ [Cmd_Dispatch (m_dispatchSizeX p) (m_dispatchSizeY p) (m_dispatchSizeZ p)])
      else (p, commandList))"

text \<open>\<open>Execute\<close> also returns the passes handed to the scheduler (\<open>AddPass(this)\<close>
  appends the pass's identity).\<close>

definition Execute ::
  "device \<Rightarrow> handle \<Rightarrow> pass \<Rightarrow> command list \<Rightarrow> uint32 \<Rightarrow> handle list \<Rightarrow>
   pass \<times> command list \<times> handle list" where
  "Execute dev this p commandList srvUsage scheduled =
     (if Scheduler_IsActive dev then (p, commandList, scheduled @ [this])
      else
        let (p1, cl1) = BeginRenderPass dev p commandList;
            (p2, cl2) = Dispatch dev p1 cl1 srvUsage;
            (p3, cl3) = EndRenderPass dev p2 cl2
        in (p3, cl3, scheduled))"

definition Reset :: "device \<Rightarrow> pass \<Rightarrow> pass" where
  "Reset dev p =
     p\<lparr> m_flags := eFlags_None,
        m_dirtyMask := eDirty_All,
        m_inputVars := map (\<lambda>_. 0) (m_inputVars p),
        m_bResourcesInvalidated := True,
        m_bPendingConstantUpdate := True,
        m_bCompiled := False,
        m_pShader := None,
        m_techniqueName := 0,
        m_rtMask := 0,
        m_dispatchSizeX := 0,
        m_dispatchSizeY := 0,
        m_dispatchSizeZ := 0,
        m_resourceDesc := Clear (m_resourceDesc p),
        m_pResourceSet := None,
        m_pResourceLayout := None,
        m_pPipelineState := None,
        m_currentPsoUpdateCount := 0,
        m_constantManager := ConstantManager_Reset dev (m_constantManager p),
        m_profilingStats := ProfilingStats_Reset dev (m_profilingStats p) \<rparr>"

subsection \<open>The setters of the pass\<close>

text \<open>Modelled from the spec: \<open>UpdateResource\<close> of the resource set description is a
  template of an absent header. It compares the new binding with the one stored at the
  bind point and returns the delta: None if unchanged, Resources if the content at an
  occupied bind point changed, ResourceLayout if the bind point was not occupied.\<close>

definition UpdateResource ::
  "nat \<Rightarrow> nat \<Rightarrow> CDeviceResourceSetDesc \<Rightarrow> uint32 \<times> CDeviceResourceSetDesc" where
  "UpdateResource bindPoint binding d =
     (case map_of d bindPoint of
        None \<Rightarrow> (eDirty_ResourceLayout, d @ [(bindPoint, binding)])
      | Some b \<Rightarrow>
          if b = binding then (eDirty_None, d)
          else (eDirty_Resources, map (\<lambda>e. if fst e = bindPoint then (bindPoint, binding) else e) d))"

text \<open>Modelled from the spec: the setters of the pass (\<open>SetTexture\<close>, \<open>SetBuffer\<close>,
  \<open>SetSampler\<close>, \<open>SetConstantBuffer\<close>, \<open>SetTechnique\<close>, \<open>SetDispatchSize\<close>) are
  defined in the absent header. A binding mutation ORs the delta of the resource set
  description into the dirty mask; a call that changes shader, technique or render-target
  mask ORs the Technique flag; the dispatch dimensions are plain parameters.\<close>

definition SetBinding :: "nat \<Rightarrow> nat \<Rightarrow> pass \<Rightarrow> pass" where
  "SetBinding bindPoint binding p =
     (let r = UpdateResource bindPoint binding (m_resourceDesc p)
      in p\<lparr>m_resourceDesc := snd r, m_dirtyMask := m_dirtyMask p OR fst r\<rparr>)"

definition SetTechnique :: "handle option \<Rightarrow> uint32 \<Rightarrow> uint64 \<Rightarrow> pass \<Rightarrow> pass" where
  "SetTechnique pShader techName rtMask p =
     (if m_pShader p \<noteq> pShader \<or> m_techniqueName p \<noteq> techName \<or> m_rtMask p \<noteq> rtMask then
        p\<lparr>m_pShader := pShader, m_techniqueName := techName, m_rtMask := rtMask,
          m_dirtyMask := m_dirtyMask p OR eDirty_Technique\<rparr>
      else p)"

definition SetDispatchSize :: "uint32 \<Rightarrow> uint32 \<Rightarrow> uint32 \<Rightarrow> pass \<Rightarrow> pass" where
  "SetDispatchSize x y z p = p\<lparr>m_dispatchSizeX := x, m_dispatchSizeY := y, m_dispatchSizeZ := z\<rparr>"

subsection \<open>Sequences of operations\<close>

text \<open>A pass together with the command list it records into, the calls made on the
  device so far and the passes handed to the scheduler.\<close>

record sys =
  this :: handle
  thePass :: pass
  commandList :: "command list"
  deviceCalls :: "device_call list"
  scheduled :: "handle list"

datatype op =
    Op_SetBinding nat nat
  | Op_SetTechnique "handle option" uint32 uint64
  | Op_SetDispatchSize uint32 uint32 uint32
  | Op_OnResourceInvalidated uint32
  | Op_Reset
  | Op_BeginConstantUpdate
  | Op_PrepareResourcesForUse
  | Op_Dispatch uint32
  | Op_Execute uint32

fun step :: "device \<Rightarrow> op \<Rightarrow> sys \<Rightarrow> error + sys" where
  "step dev (Op_SetBinding bindPoint binding) s =
     Inr (s\<lparr>thePass := SetBinding bindPoint binding (thePass s)\<rparr>)"
| "step dev (Op_SetTechnique pShader techName rtMask) s =
     Inr (s\<lparr>thePass := SetTechnique pShader techName rtMask (thePass s)\<rparr>)"
| "step dev (Op_SetDispatchSize x y z) s =
     Inr (s\<lparr>thePass := SetDispatchSize x y z (thePass s)\<rparr>)"
| "step dev (Op_OnResourceInvalidated flags) s =
     Inr (s\<lparr>thePass := fst (OnResourceInvalidated (thePass s) flags)\<rparr>)"
| "step dev Op_Reset s =
     Inr (s\<lparr>thePass := Reset dev (thePass s)\<rparr>)"
| "step dev Op_BeginConstantUpdate s =
     (case BeginConstantUpdate dev (thePass s) (deviceCalls s) of
        Inl e \<Rightarrow> Inl e
      | Inr (p, calls) \<Rightarrow> Inr (s\<lparr>thePass := p, deviceCalls := calls\<rparr>))"
| "step dev Op_PrepareResourcesForUse s =
     (case PrepareResourcesForUse dev (thePass s) (commandList s) (deviceCalls s) of
        Inl e \<Rightarrow> Inl e
      | Inr (p, cl, calls) \<Rightarrow> Inr (s\<lparr>thePass := p, commandList := cl, deviceCalls := calls\<rparr>))"
| "step dev (Op_Dispatch srvUsage) s =
     (case Dispatch dev (thePass s) (commandList s) srvUsage of
        (p, cl) \<Rightarrow> Inr (s\<lparr>thePass := p, commandList := cl\<rparr>))"
| "step dev (Op_Execute srvUsage) s =
     (case Execute dev (this s) (thePass s) (commandList s) srvUsage (scheduled s) of
        (p, cl, sch) \<Rightarrow> Inr (s\<lparr>thePass := p, commandList := cl, scheduled := sch\<rparr>))"

text \<open>A run applies the operations in order, each against the behaviour the device
  shows at that moment, and stops at the first error.\<close>

fun run :: "(device \<times> op) list \<Rightarrow> sys \<Rightarrow> error + sys" where
  "run [] s = Inr s"
| "run ((dev, x) # xs) s = (case step dev x s of Inl e \<Rightarrow> Inl e | Inr s1 \<Rightarrow> run xs s1)"

subsection \<open>Notions used by the properties\<close>

text \<open>A recorded call succeeded: \<open>Update\<close> returned true, the factory returned an object
  and, for a pipeline state, the object is valid.\<close>

fun call_ok :: "device_call \<Rightarrow> bool" where
  "call_ok (Call_Update desc flags r) = r"
| "call_ok (Call_CreateResourceLayout desc r) = (r \<noteq> None)"
| "call_ok (Call_CreateComputePSO desc r) = (case r of None \<Rightarrow> False | Some pso \<Rightarrow> IsValid pso)"

text \<open>The mask \<open>Compile\<close> works from: the dirty mask with the pending invalidation
  folded in.\<close>

definition workingMask :: "pass \<Rightarrow> uint32" where
  "workingMask p = m_dirtyMask p OR (if m_bResourcesInvalidated p then eDirty_Resources else eDirty_None)"

text \<open>Every bit of \<open>a\<close> is a bit of \<open>b\<close>.\<close>

definition bits_subset :: "uint32 \<Rightarrow> uint32 \<Rightarrow> bool" where
  "bits_subset a b = (a AND b = a)"

text \<open>The slots the loops over the inline constant buffers hand out, from \<open>bindSlot\<close> on.\<close>

definition slots_from :: "int \<Rightarrow> 'a list \<Rightarrow> (int \<times> 'a) list" where
  "slots_from bindSlot xs = zip (map (\<lambda>i. bindSlot + int i) [0..<length xs]) xs"

text \<open>The state of the constant manager once \<open>Compile\<close> has released and, for a pass
  that reflects its constant buffers, re-allocated the shader reflection.\<close>

definition reflected :: "device \<Rightarrow> pass \<Rightarrow> nat" where
  "reflected dev p =
     (if m_flags p AND eFlags_ReflectConstantBuffersFromShader \<noteq> 0
      then AllocateShaderReflection dev (m_pShader p) (m_techniqueName p) (m_rtMask p)
             EShaderStage_Compute (ReleaseShaderReflection dev (m_constantManager p))
      else ReleaseShaderReflection dev (m_constantManager p))"

text \<open>The layout description with the resource set at slot 0 and the inline constant
  buffers, in the order the constant manager lists them, at the slots from 1 on.\<close>

definition layoutDescOf :: "device \<Rightarrow> pass \<Rightarrow> SDeviceResourceLayoutDesc" where
  "layoutDescOf dev p =
     Layout_ResourceSet 0 (m_resourceDesc p) #
     map (\<lambda>(i, cb). Layout_ConstantBuffer i (shaderSlot cb) (shaderStages cb))
       (slots_from 1 (GetBuffers dev (reflected dev p)))"

text \<open>The pipeline state key built from the members of the pass.\<close>

definition psoDescOf :: "pass \<Rightarrow> CDeviceComputePSODesc" where
  "psoDescOf p =
     \<lparr> desc_pResourceLayout = m_pResourceLayout p, desc_pShader = m_pShader p,
       desc_technique = m_techniqueName p, desc_rtMask = m_rtMask p,
       desc_mdMask = 0, desc_mdvMask = 0 \<rparr>"

text \<open>The successful \<open>Update\<close> call that precedes the later steps when the Resources bit
  is in the working mask.\<close>

definition updateCalls :: "pass \<Rightarrow> device_call list" where
  "updateCalls p =
     (if workingMask p AND eDirty_Resources \<noteq> 0
      then [Call_Update (m_resourceDesc p)
              (workingMask p AND (eDirty_Resources OR eDirty_ResourceLayout)) True]
      else [])"

text \<open>The calls made since \<open>calls\<close> was the record of calls.\<close>

definition new_calls :: "device_call list \<Rightarrow> device_call list \<Rightarrow> device_call list" where
  "new_calls calls calls' = drop (length calls) calls'"

text \<open>A pending invalidation flag comes with the dirty mask All. The constructor clears
  the flag, \<open>Reset\<close> is the only function that sets it and sets the mask to All with it, and
  \<open>Compile\<close> clears it.\<close>

definition pending_invalidation_has_All :: "pass \<Rightarrow> bool" where
  "pending_invalidation_has_All p = (m_bResourcesInvalidated p \<longrightarrow> m_dirtyMask p = eDirty_All)"

text \<open>The backend dispatch calls among recorded commands.\<close>

fun is_Dispatch :: "command \<Rightarrow> bool" where
  "is_Dispatch (Cmd_Dispatch x y z) = True"
| "is_Dispatch c = False"

text \<open>The operation calls \<open>Compile\<close> in this state, and \<open>Compile\<close> returns None.\<close>

definition invokes_Compile :: "op \<Rightarrow> pass \<Rightarrow> bool" where
  "invokes_Compile x p =
     (case x of
        Op_BeginConstantUpdate \<Rightarrow> m_flags p AND eFlags_ReflectConstantBuffersFromShader \<noteq> 0 \<and> IsDirty p
      | Op_PrepareResourcesForUse \<Rightarrow> \<not> m_bPendingConstantUpdate p \<and> IsDirty p
      | _ \<Rightarrow> False)"

definition compile_succeeds :: "device \<Rightarrow> op \<Rightarrow> sys \<Rightarrow> bool" where
  "compile_succeeds dev x s =
     (invokes_Compile x (thePass s) \<and>
      (case Compile dev (thePass s) (deviceCalls s) of
         Inl e \<Rightarrow> False
       | Inr r \<Rightarrow> fst r = eDirty_None))"

text \<open>No operation of the run compiles successfully.\<close>

fun no_successful_compile :: "(device \<times> op) list \<Rightarrow> sys \<Rightarrow> bool" where
  "no_successful_compile [] s = True"
| "no_successful_compile ((dev, x) # xs) s =
     (\<not> compile_succeeds dev x s \<and>
      (case step dev x s of Inl e \<Rightarrow> True | Inr s1 \<Rightarrow> no_successful_compile xs s1))"

subsection \<open>A device for concrete runs\<close>

text \<open>A device whose \<open>Update\<close>, layout creation and pipeline state creation succeed or
  fail as told, and which reflects two constant buffers once reflection is allocated.\<close>

definition mock_device :: "bool \<Rightarrow> bool \<Rightarrow> bool \<Rightarrow> device" where
  "mock_device updateOk layoutOk psoOk =
     \<lparr> CreateResourceSet = (\<lambda>flags. Some 10),
       Update = (\<lambda>desc flags rs. (updateOk, if updateOk then rs + 1 else rs)),
       CreateResourceLayout = (\<lambda>d. if layoutOk then Some (length d) else None),
       CreateComputePSO =
         (\<lambda>d. if psoOk then Some \<lparr>pso_handle = 7, IsValid = True, GetUpdateCount = 3\<rparr> else None),
       ConstantManager_New = 0,
       ReleaseShaderReflection = (\<lambda>c. 0),
       AllocateShaderReflection = (\<lambda>pShader techName rtMask stage c. 1),
       InitShaderReflection = (\<lambda>pso c. c),
       BeginNamedConstantUpdate = (\<lambda>c. c),
       EndNamedConstantUpdate = (\<lambda>c. c),
       ConstantManager_Reset = (\<lambda>c. 0),
       GetBuffers =
         (\<lambda>c. if c = 0 then []
              else [\<lparr>pBuffer = 21, shaderSlot = 3, shaderStages = EShaderStage_Compute\<rparr>,
                    \<lparr>pBuffer = 22, shaderSlot = 5, shaderStages = EShaderStage_Compute\<rparr>]),
       ENABLE_PROFILING_CODE = False,
       EndProfilingSection = (\<lambda>cl. 0),
       ProfilingStats_Merge = (\<lambda>a b. a + b),
       ProfilingStats_Reset = (\<lambda>a. 0),
       Scheduler_IsActive = False \<rparr>"

text \<open>A freshly constructed pass that reflects its constant buffers, and the same pass
  as a successful compile leaves it.\<close>

definition fresh_pass :: pass where
  "fresh_pass = CComputeRenderPass (mock_device True True True) eFlags_ReflectConstantBuffersFromShader"

definition compiled_pass :: pass where
  "compiled_pass =
     fresh_pass\<lparr> m_dirtyMask := eDirty_None,
                 m_bCompiled := True,
                 m_pResourceSet := Some 11,
                 m_pResourceLayout := Some 3,
                 m_pPipelineState := Some \<lparr>pso_handle = 7, IsValid = True, GetUpdateCount = 3\<rparr>,
                 m_currentPsoUpdateCount := 3,
                 m_constantManager := 1 \<rparr>"

definition fresh_sys :: sys where
  "fresh_sys = \<lparr> this = 1, thePass = fresh_pass, commandList = [], deviceCalls = [], scheduled = [] \<rparr>"

text \<open>The calls of the successful first compile of \<open>fresh_pass\<close>.\<close>

definition compiled_calls :: "device_call list" where
  "compiled_calls =
     [Call_Update [] 3 True,
      Call_CreateResourceLayout
        [Layout_ResourceSet 0 [], Layout_ConstantBuffer 1 3 8, Layout_ConstantBuffer 2 5 8] (Some 3),
      Call_CreateComputePSO
        \<lparr>desc_pResourceLayout = Some 3, desc_pShader = None, desc_technique = 0, desc_rtMask = 0,
         desc_mdMask = 0, desc_mdvMask = 0\<rparr>
        (Some \<lparr>pso_handle = 7, IsValid = True, GetUpdateCount = 3\<rparr>)]"

text \<open>The compiled pass after a binding was added (the layout is dirty), and the compiled
  pass with an invalidation pending in \<open>m_bResourcesInvalidated\<close> only.\<close>

definition layout_dirty_pass :: pass where
  "layout_dirty_pass = compiled_pass\<lparr>m_dirtyMask := eDirty_ResourceLayout\<rparr>"

definition invalidated_pass :: pass where
  "invalidated_pass = compiled_pass\<lparr>m_bResourcesInvalidated := True\<rparr>"

text \<open>A run in which the only compile fails.\<close>

definition quiet_run :: "(device \<times> op) list" where
  "quiet_run =
     [(mock_device False True True, Op_PrepareResourcesForUse),
      (mock_device True True True, Op_SetBinding 0 5),
      (mock_device True True True, Op_OnResourceInvalidated 1),
      (mock_device True True True, Op_Dispatch 0),
      (mock_device True True True, Op_Execute 0)]"

text \<open>A run whose only operation is a \<open>PrepareResourcesForUse\<close> whose compile fails.\<close>

definition failed_prepare_run :: "(device \<times> op) list" where
  "failed_prepare_run = [(mock_device False True True, Op_PrepareResourcesForUse)]"

section \<open>Properties\<close>

subsection \<open>Masks and loops\<close>

lemmas eDirty_defs = eDirty_None_def eDirty_ResourceLayout_def eDirty_Resources_def
  eDirty_Technique_def eDirty_All_def

lemma bits_subset_OR: "bits_subset a (a OR b)"
  by (simp add: bits_subset_def)

lemma AND_nonzero_not_None: "x AND y \<noteq> 0 \<Longrightarrow> x \<noteq> eDirty_None" for x y :: uint32
  by (auto simp: eDirty_None_def)

lemma bits_subset_refl: "bits_subset a a"
  by (simp add: bits_subset_def)

lemma bits_subset_trans: "bits_subset a b \<Longrightarrow> bits_subset b c \<Longrightarrow> bits_subset a c"
  unfolding bits_subset_def by (metis word_bw_assocs(1))

lemma slots_from_Cons: "slots_from b (x # xs) = (b, x) # slots_from (b + 1) xs"
proof -
  have "map (\<lambda>i. b + int i) [0..<Suc (length xs)] = b # map (\<lambda>i. (b + 1) + int i) [0..<length xs]"
    by (simp add: upt_conv_Cons map_Suc_upt[symmetric] del: upt_Suc)
  then show ?thesis by (simp add: slots_from_def)
qed

lemma SetInlineConstantBuffers_append:
  "SetInlineConstantBuffers b cbs cl =
     cl @ map (\<lambda>(i, cb). Cmd_SetInlineConstantBuffer i (pBuffer cb) (shaderSlot cb)) (slots_from b cbs)"
proof (induction cbs arbitrary: b cl)
  case Nil
  then show ?case by (simp add: slots_from_def)
next
  case (Cons cb cbs)
  then show ?case by (simp add: slots_from_Cons)
qed

lemma no_Dispatch_among_inline:
  "filter is_Dispatch (map (\<lambda>(i, cb). Cmd_SetInlineConstantBuffer i (pBuffer cb) (shaderSlot cb)) xs) = []"
  by (induction xs) auto

subsection \<open>The outcomes of Compile\<close>

lemma SetConstantBuffers_append:
  "SetConstantBuffers b cbs l =
     l @ map (\<lambda>(i, cb). Layout_ConstantBuffer i (shaderSlot cb) (shaderStages cb)) (slots_from b cbs)"
proof (induction cbs arbitrary: b l)
  case Nil
  then show ?case by (simp add: slots_from_def)
next
  case (Cons cb cbs)
  then show ?case by (simp add: slots_from_Cons SetConstantBuffer_def)
qed

lemma PrepareInlineConstantBuffers_append:
  "PrepareInlineConstantBuffers b cbs cl =
     cl @ map (\<lambda>(i, cb). Cmd_PrepareInlineConstantBufferForUse i (pBuffer cb) (shaderSlot cb)
                 EShaderStage_Compute) (slots_from b cbs)"
proof (induction cbs arbitrary: b cl)
  case Nil
  then show ?case by (simp add: slots_from_def)
next
  case (Cons cb cbs)
  then show ?case by (simp add: slots_from_Cons)
qed

lemma new_calls_append [simp]: "new_calls calls (calls @ xs) = xs"
  by (simp add: new_calls_def)

lemma new_calls_self [simp]: "new_calls calls calls = []"
  by (simp add: new_calls_def)

lemma Compile_PipelineState_keeps:
  assumes "Compile_PipelineState dev dm p calls = (ret, p', calls')"
  shows "m_dirtyMask p' = m_dirtyMask p \<and> m_bResourcesInvalidated p' = m_bResourcesInvalidated p
       \<and> m_pResourceSet p' = m_pResourceSet p \<and> m_pResourceLayout p' = m_pResourceLayout p
       \<and> psoDescOf p' = psoDescOf p
       \<and> (\<exists>new. calls' = calls @ new)"
  using assms
  by (auto simp: Compile_PipelineState_def Compile_Done_def Let_def psoDescOf_def
      split: if_splits option.splits)

lemma Compile_PipelineState_outcome:
  assumes "Compile_PipelineState dev dm p calls = (ret, p', calls')"
  shows "(ret = eDirty_None \<and> m_bCompiled p' \<and> (\<forall>c\<in>set (new_calls calls calls'). call_ok c))
       \<or> (ret = dm \<and> dm AND (eDirty_Technique OR eDirty_ResourceLayout) \<noteq> 0
          \<and> m_bCompiled p' = m_bCompiled p
          \<and> m_currentPsoUpdateCount p' = m_currentPsoUpdateCount p
          \<and> m_constantManager p' = m_constantManager p
          \<and> \<not> call_ok (Call_CreateComputePSO (psoDescOf p) (m_pPipelineState p'))
          \<and> new_calls calls calls' = [Call_CreateComputePSO (psoDescOf p) (m_pPipelineState p')])"
  using assms
  by (auto simp: Compile_PipelineState_def Compile_Done_def Let_def psoDescOf_def
      split: if_splits option.splits)

lemma Compile_ResourceLayout_unfold:
  "Compile_ResourceLayout dev dm p calls =
     (if dm AND (eDirty_Technique OR eDirty_ResourceLayout) \<noteq> 0 then
        if CreateResourceLayout dev (layoutDescOf dev p) = None
        then (dm, p\<lparr>m_constantManager := reflected dev p, m_pResourceLayout := None\<rparr>,
              calls @ [Call_CreateResourceLayout (layoutDescOf dev p) None])
        else Compile_PipelineState dev dm
               (p\<lparr>m_constantManager := reflected dev p,
                  m_pResourceLayout := CreateResourceLayout dev (layoutDescOf dev p)\<rparr>)
               (calls @ [Call_CreateResourceLayout (layoutDescOf dev p)
                           (CreateResourceLayout dev (layoutDescOf dev p))])
      else Compile_PipelineState dev dm p calls)"
  by (auto simp: Compile_ResourceLayout_def Let_def reflected_def layoutDescOf_def
      SetConstantBuffers_append SetResourceSet_def)

lemma Compile_ResourceLayout_keeps:
  assumes "Compile_ResourceLayout dev dm p calls = (ret, p', calls')"
  shows "m_dirtyMask p' = m_dirtyMask p \<and> m_bResourcesInvalidated p' = m_bResourcesInvalidated p
       \<and> m_pResourceSet p' = m_pResourceSet p \<and> (\<exists>new. calls' = calls @ new)"
  using assms
  by (auto simp: Compile_ResourceLayout_unfold split: if_splits dest!: Compile_PipelineState_keeps)

lemma Compile_ResourceLayout_outcome:
  assumes "Compile_ResourceLayout dev dm p calls = (ret, p', calls')"
  shows "(ret = eDirty_None \<and> m_bCompiled p' \<and> (\<forall>c\<in>set (new_calls calls calls'). call_ok c))
       \<or> (ret = dm \<and> dm AND (eDirty_Technique OR eDirty_ResourceLayout) \<noteq> 0
          \<and> m_bCompiled p' = m_bCompiled p
          \<and> m_pResourceLayout p' = None
          \<and> m_pPipelineState p' = m_pPipelineState p
          \<and> m_currentPsoUpdateCount p' = m_currentPsoUpdateCount p
          \<and> m_constantManager p' = reflected dev p
          \<and> new_calls calls calls' = [Call_CreateResourceLayout (layoutDescOf dev p) None])
       \<or> (ret = dm \<and> dm AND (eDirty_Technique OR eDirty_ResourceLayout) \<noteq> 0
          \<and> m_bCompiled p' = m_bCompiled p
          \<and> m_pResourceLayout p' \<noteq> None
          \<and> \<not> call_ok (Call_CreateComputePSO (psoDescOf p') (m_pPipelineState p'))
          \<and> m_currentPsoUpdateCount p' = m_currentPsoUpdateCount p
          \<and> m_constantManager p' = reflected dev p
          \<and> new_calls calls calls' =
               [Call_CreateResourceLayout (layoutDescOf dev p) (m_pResourceLayout p'),
                Call_CreateComputePSO (psoDescOf p') (m_pPipelineState p')])"
proof (cases "dm AND (eDirty_Technique OR eDirty_ResourceLayout) \<noteq> 0")
  case False
  with assms have "Compile_PipelineState dev dm p calls = (ret, p', calls')"
    by (simp add: Compile_ResourceLayout_unfold)
  from Compile_PipelineState_outcome [OF this] False show ?thesis by simp
next
  case True
  define l where "l = CreateResourceLayout dev (layoutDescOf dev p)"
  define p3 where "p3 = p\<lparr>m_constantManager := reflected dev p, m_pResourceLayout := l\<rparr>"
  define calls1 where "calls1 = calls @ [Call_CreateResourceLayout (layoutDescOf dev p) l]"
  show ?thesis
  proof (cases "l = None")
    case True
    with assms \<open>dm AND (eDirty_Technique OR eDirty_ResourceLayout) \<noteq> 0\<close>
    have "ret = dm" "p' = p3" "calls' = calls1"
      by (simp_all add: Compile_ResourceLayout_unfold l_def [symmetric] p3_def calls1_def)
    with True \<open>dm AND (eDirty_Technique OR eDirty_ResourceLayout) \<noteq> 0\<close>
    show ?thesis by (simp add: p3_def calls1_def)
  next
    case False
    with assms True have ps: "Compile_PipelineState dev dm p3 calls1 = (ret, p', calls')"
      by (simp add: Compile_ResourceLayout_unfold l_def [symmetric] p3_def calls1_def)
    from Compile_PipelineState_keeps [OF ps]
    obtain new where k: "m_pResourceLayout p' = l" "psoDescOf p' = psoDescOf p3"
      and c: "calls' = calls1 @ new"
      by (auto simp: p3_def)
    have n: "new_calls calls calls' = Call_CreateResourceLayout (layoutDescOf dev p) l # new_calls calls1 calls'"
      using c by (simp add: calls1_def new_calls_def)
    from Compile_PipelineState_outcome [OF ps] show ?thesis
    proof (elim disjE, goal_cases)
      case 1
      then show ?case using False n by simp
    next
      case 2
      then have "ret = dm" "m_bCompiled p' = m_bCompiled p"
        "m_currentPsoUpdateCount p' = m_currentPsoUpdateCount p"
        "m_constantManager p' = reflected dev p"
        "\<not> call_ok (Call_CreateComputePSO (psoDescOf p') (m_pPipelineState p'))"
        "new_calls calls calls' =
               [Call_CreateResourceLayout (layoutDescOf dev p) (m_pResourceLayout p'),
                Call_CreateComputePSO (psoDescOf p') (m_pPipelineState p')]"
        using k n by (simp_all add: p3_def)
      then show ?case using True False k(1) by blast
    qed
  qed
qed

lemma Compile_Inl_iff:
  "(\<exists>e. Compile dev p calls = Inl e) \<longleftrightarrow>
   (workingMask p AND eDirty_Resources \<noteq> 0 \<and> m_pResourceSet p = None)"
  by (auto simp: Compile_def workingMask_def Let_def split: option.splits if_splits)

lemma layoutDescOf_cong:
  "layoutDescOf dev (p\<lparr>m_bResourcesInvalidated := a, m_bCompiled := b\<rparr>) = layoutDescOf dev p"
  "layoutDescOf dev (p\<lparr>m_bResourcesInvalidated := a, m_bCompiled := b, m_pResourceSet := c\<rparr>) = layoutDescOf dev p"
  "reflected dev (p\<lparr>m_bResourcesInvalidated := a, m_bCompiled := b\<rparr>) = reflected dev p"
  "reflected dev (p\<lparr>m_bResourcesInvalidated := a, m_bCompiled := b, m_pResourceSet := c\<rparr>) = reflected dev p"
  by (simp_all add: layoutDescOf_def reflected_def)

lemma Compile_unfold:
  "Compile dev p calls =
     (if workingMask p AND eDirty_Resources \<noteq> 0 then
        (case m_pResourceSet p of
           None \<Rightarrow> Inl NullPointerDereference
         | Some rs \<Rightarrow>
             let flags = workingMask p AND (eDirty_Resources OR eDirty_ResourceLayout);
                 r = Update dev (m_resourceDesc p) flags rs;
                 p2 = p\<lparr>m_bResourcesInvalidated := False, m_bCompiled := False,
                        m_pResourceSet := Some (snd r)\<rparr>
             in if \<not> fst r then Inr (workingMask p, p2, calls @ [Call_Update (m_resourceDesc p) flags False])
                else Inr (Compile_ResourceLayout dev (workingMask p) p2
                            (calls @ [Call_Update (m_resourceDesc p) flags True])))
      else Inr (Compile_ResourceLayout dev (workingMask p)
                  (p\<lparr>m_bResourcesInvalidated := False, m_bCompiled := False\<rparr>) calls))"
  by (auto simp: Compile_def workingMask_def Let_def split: option.splits)

lemma Compile_keeps:
  assumes "Compile dev p calls = Inr (ret, p', calls')"
  shows "m_dirtyMask p' = m_dirtyMask p \<and> \<not> m_bResourcesInvalidated p'
    \<and> calls' = calls @ new_calls calls calls'"
  using assms
  by (auto simp: Compile_unfold Let_def split: if_splits option.splits
      dest!: Compile_ResourceLayout_keeps)

lemma Compile_outcome:
  assumes "Compile dev p calls = Inr (ret, p', calls')"
  shows
    "(ret = eDirty_None \<and> m_bCompiled p' \<and> (\<forall>c\<in>set (new_calls calls calls'). call_ok c))
     \<or> (ret = workingMask p \<and> ret AND eDirty_Resources \<noteq> 0
          \<and> \<not> m_bCompiled p'
          \<and> m_pResourceLayout p' = m_pResourceLayout p
          \<and> m_pPipelineState p' = m_pPipelineState p
          \<and> m_currentPsoUpdateCount p' = m_currentPsoUpdateCount p
          \<and> m_constantManager p' = m_constantManager p
          \<and> new_calls calls calls' =
               [Call_Update (m_resourceDesc p)
                  (workingMask p AND (eDirty_Resources OR eDirty_ResourceLayout)) False])
     \<or> (ret = workingMask p \<and> ret AND (eDirty_Technique OR eDirty_ResourceLayout) \<noteq> 0
          \<and> \<not> m_bCompiled p'
          \<and> m_pResourceLayout p' = None
          \<and> m_pPipelineState p' = m_pPipelineState p
          \<and> m_currentPsoUpdateCount p' = m_currentPsoUpdateCount p
          \<and> m_constantManager p' = reflected dev p
          \<and> new_calls calls calls' =
               updateCalls p @ [Call_CreateResourceLayout (layoutDescOf dev p) None])
     \<or> (ret = workingMask p \<and> ret AND (eDirty_Technique OR eDirty_ResourceLayout) \<noteq> 0
          \<and> \<not> m_bCompiled p'
          \<and> m_pResourceLayout p' \<noteq> None
          \<and> \<not> call_ok (Call_CreateComputePSO (psoDescOf p') (m_pPipelineState p'))
          \<and> m_currentPsoUpdateCount p' = m_currentPsoUpdateCount p
          \<and> m_constantManager p' = reflected dev p
          \<and> new_calls calls calls' =
               updateCalls p @ [Call_CreateResourceLayout (layoutDescOf dev p) (m_pResourceLayout p'),
                                Call_CreateComputePSO (psoDescOf p') (m_pPipelineState p')])"
proof (cases "workingMask p AND eDirty_Resources \<noteq> 0")
  case False
  define p1 where "p1 = p\<lparr>m_bResourcesInvalidated := False, m_bCompiled := False\<rparr>"
  from False assms have rl: "Compile_ResourceLayout dev (workingMask p) p1 calls = (ret, p', calls')"
    by (simp add: Compile_unfold p1_def)
  have u: "updateCalls p = []"
    using False by (simp add: updateCalls_def)
  have p1: "m_bCompiled p1 = False" "m_pPipelineState p1 = m_pPipelineState p"
    "m_currentPsoUpdateCount p1 = m_currentPsoUpdateCount p"
    "reflected dev p1 = reflected dev p" "layoutDescOf dev p1 = layoutDescOf dev p"
    by (simp_all add: p1_def layoutDescOf_cong)
  from Compile_ResourceLayout_outcome [OF rl] show ?thesis
    unfolding p1 u by auto
next
  case True
  with assms obtain rs where rs: "m_pResourceSet p = Some rs"
    by (auto simp: Compile_unfold split: option.splits)
  define flags where "flags = workingMask p AND (eDirty_Resources OR eDirty_ResourceLayout)"
  define r where "r = Update dev (m_resourceDesc p) flags rs"
  define p2 where "p2 = p\<lparr>m_bResourcesInvalidated := False, m_bCompiled := False,
                           m_pResourceSet := Some (snd r)\<rparr>"
  define calls1 where "calls1 = calls @ [Call_Update (m_resourceDesc p) flags True]"
  show ?thesis
  proof (cases "fst r")
    case False
    with assms True rs have "ret = workingMask p" "p' = p2"
      "calls' = calls @ [Call_Update (m_resourceDesc p) flags False]"
      by (simp_all add: Compile_unfold Let_def flags_def [symmetric] r_def [symmetric] p2_def)
    with True show ?thesis
      by (simp add: p2_def flags_def)
  next
    case ok: True
    with assms True rs
    have rl: "Compile_ResourceLayout dev (workingMask p) p2 calls1 = (ret, p', calls')"
      by (simp add: Compile_unfold Let_def flags_def [symmetric] r_def [symmetric] p2_def calls1_def)
    from Compile_ResourceLayout_keeps [OF rl] obtain new where c: "calls' = calls1 @ new"
      by auto
    have n: "new_calls calls calls' = Call_Update (m_resourceDesc p) flags True # new_calls calls1 calls'"
      using c by (simp add: calls1_def new_calls_def)
    have u: "updateCalls p = [Call_Update (m_resourceDesc p) flags True]"
      using True by (simp add: updateCalls_def flags_def)
    have p2: "m_bCompiled p2 = False" "m_pPipelineState p2 = m_pPipelineState p"
      "m_currentPsoUpdateCount p2 = m_currentPsoUpdateCount p"
      "reflected dev p2 = reflected dev p" "layoutDescOf dev p2 = layoutDescOf dev p"
      by (simp_all add: p2_def layoutDescOf_cong)
    from Compile_ResourceLayout_outcome [OF rl] show ?thesis
      unfolding p2 u n by auto
  qed
qed

lemma Compile_resource_set:
  assumes "Compile dev p calls = Inr (ret, p', calls')"
  shows "m_pResourceSet p' =
     (if workingMask p AND eDirty_Resources \<noteq> 0
      then map_option (\<lambda>rs. snd (Update dev (m_resourceDesc p)
              (workingMask p AND (eDirty_Resources OR eDirty_ResourceLayout)) rs)) (m_pResourceSet p)
      else m_pResourceSet p)"
  using assms
  by (auto simp: Compile_unfold Let_def split: if_splits option.splits
      dest!: Compile_ResourceLayout_keeps)

lemma updateCalls_ok: "\<forall>c\<in>set (updateCalls p). call_ok c"
  by (simp add: updateCalls_def)

lemma Compile_PipelineState_no_layout_call:
  assumes "Compile_PipelineState dev dm p calls = (ret, p', calls')"
  shows "Call_CreateResourceLayout d r \<notin> set (new_calls calls calls')"
  using assms
  by (auto simp: Compile_PipelineState_def Compile_Done_def Let_def
      split: if_splits option.splits)

lemma Compile_ResourceLayout_layout_call:
  assumes "Compile_ResourceLayout dev dm p calls = (ret, p', calls')"
    and "Call_CreateResourceLayout d r \<in> set (new_calls calls calls')"
  shows "d = layoutDescOf dev p"
proof (cases "dm AND (eDirty_Technique OR eDirty_ResourceLayout) \<noteq> 0")
  case False
  with assms(1) have "Compile_PipelineState dev dm p calls = (ret, p', calls')"
    by (simp add: Compile_ResourceLayout_unfold)
  from Compile_PipelineState_no_layout_call [OF this] assms(2) show ?thesis by simp
next
  case True
  show ?thesis
  proof (cases "CreateResourceLayout dev (layoutDescOf dev p) = None")
    case True
    with assms \<open>dm AND (eDirty_Technique OR eDirty_ResourceLayout) \<noteq> 0\<close> show ?thesis
      by (auto simp: Compile_ResourceLayout_unfold)
  next
    case False
    define calls1 where "calls1 = calls @ [Call_CreateResourceLayout (layoutDescOf dev p)
                           (CreateResourceLayout dev (layoutDescOf dev p))]"
    from False assms(1) True obtain p3 where
      ps: "Compile_PipelineState dev dm p3 calls1 = (ret, p', calls')"
      by (auto simp: Compile_ResourceLayout_unfold calls1_def)
    from Compile_PipelineState_keeps [OF ps] obtain new where c: "calls' = calls1 @ new"
      by auto
    then have n: "new_calls calls calls' = Call_CreateResourceLayout (layoutDescOf dev p)
                           (CreateResourceLayout dev (layoutDescOf dev p)) # new_calls calls1 calls'"
      by (simp add: calls1_def new_calls_def)
    from Compile_PipelineState_no_layout_call [OF ps] assms(2) n show ?thesis
      by auto
  qed
qed

lemma Compile_layout_call:
  assumes "Compile dev p calls = Inr (ret, p', calls')"
    and "Call_CreateResourceLayout d r \<in> set (new_calls calls calls')"
  shows "d = layoutDescOf dev p"
proof (cases "workingMask p AND eDirty_Resources \<noteq> 0")
  case False
  with assms(1) have "Compile_ResourceLayout dev (workingMask p)
      (p\<lparr>m_bResourcesInvalidated := False, m_bCompiled := False\<rparr>) calls = (ret, p', calls')"
    by (simp add: Compile_unfold)
  from Compile_ResourceLayout_layout_call [OF this assms(2)] show ?thesis
    by (simp add: layoutDescOf_cong)
next
  case True
  with assms(1) obtain rs where rs: "m_pResourceSet p = Some rs"
    by (auto simp: Compile_unfold split: option.splits)
  define flags where "flags = workingMask p AND (eDirty_Resources OR eDirty_ResourceLayout)"
  define r0 where "r0 = Update dev (m_resourceDesc p) flags rs"
  define p2 where "p2 = p\<lparr>m_bResourcesInvalidated := False, m_bCompiled := False,
                           m_pResourceSet := Some (snd r0)\<rparr>"
  define calls1 where "calls1 = calls @ [Call_Update (m_resourceDesc p) flags True]"
  show ?thesis
  proof (cases "fst r0")
    case False
    with assms(1) True rs have "calls' = calls @ [Call_Update (m_resourceDesc p) flags False]"
      by (simp add: Compile_unfold Let_def flags_def [symmetric] r0_def [symmetric])
    with assms(2) show ?thesis by simp
  next
    case ok: True
    with assms(1) True rs
    have rl: "Compile_ResourceLayout dev (workingMask p) p2 calls1 = (ret, p', calls')"
      by (simp add: Compile_unfold Let_def flags_def [symmetric] r0_def [symmetric] p2_def calls1_def)
    from Compile_ResourceLayout_keeps [OF rl] obtain new where c: "calls' = calls1 @ new"
      by auto
    then have n: "new_calls calls calls' = Call_Update (m_resourceDesc p) flags True # new_calls calls1 calls'"
      by (simp add: calls1_def new_calls_def)
    with assms(2) have "Call_CreateResourceLayout d r \<in> set (new_calls calls1 calls')" by simp
    from Compile_ResourceLayout_layout_call [OF rl this] show ?thesis
      by (simp add: p2_def layoutDescOf_cong)
  qed
qed

lemma slots_from_fst: "map fst (slots_from b xs) = map (\<lambda>i. b + int i) [0..<length xs]"
  by (simp add: slots_from_def)

lemma slots_from_snd: "map snd (slots_from b xs) = xs"
  by (simp add: slots_from_def)

subsection \<open>The dirty mask along a run\<close>

lemma bits_subset_OR_left:
  "bits_subset a c \<Longrightarrow> bits_subset b c \<Longrightarrow> bits_subset (a OR b) c"
  by (simp add: bits_subset_def word_ao_dist)

lemma bits_subset_flags:
  "bits_subset eDirty_None eDirty_All" "bits_subset eDirty_Resources eDirty_All"
  "bits_subset eDirty_ResourceLayout eDirty_All" "bits_subset eDirty_Technique eDirty_All"
  "bits_subset eDirty_All eDirty_All"
  by (simp_all add: bits_subset_def eDirty_defs)

lemma bits_subset_workingMask:
  "bits_subset (m_dirtyMask p) (workingMask p)"
  "bits_subset (m_dirtyMask p) eDirty_All \<Longrightarrow> bits_subset (workingMask p) eDirty_All"
  by (simp_all add: workingMask_def bits_subset_OR bits_subset_OR_left bits_subset_flags)

lemma Compile_ret:
  assumes "Compile dev p calls = Inr (ret, p', calls')"
  shows "ret = eDirty_None \<or> ret = workingMask p"
  using Compile_outcome [OF assms] by auto

lemma UpdateResource_delta: "bits_subset (fst (UpdateResource bp b d)) eDirty_All"
  by (simp add: UpdateResource_def bits_subset_flags split: option.splits)

lemma step_mask:
  assumes "step dev x s = Inr s'"
    and "bits_subset (m_dirtyMask (thePass s)) eDirty_All"
  shows "bits_subset (m_dirtyMask (thePass s')) eDirty_All
     \<and> (bits_subset (m_dirtyMask (thePass s)) (m_dirtyMask (thePass s')) \<or> compile_succeeds dev x s)"
proof (cases x)
  case (Op_SetBinding bp b)
  with assms show ?thesis
    by (auto simp: SetBinding_def Let_def bits_subset_OR bits_subset_OR_left UpdateResource_delta)
next
  case (Op_SetTechnique sh t r)
  with assms show ?thesis
    by (auto simp: SetTechnique_def bits_subset_OR bits_subset_OR_left bits_subset_flags bits_subset_refl)
next
  case (Op_SetDispatchSize a b c)
  with assms show ?thesis
    by (auto simp: SetDispatchSize_def bits_subset_refl)
next
  case (Op_OnResourceInvalidated f)
  with assms show ?thesis
    by (auto simp: OnResourceInvalidated_def bits_subset_OR bits_subset_OR_left bits_subset_flags)
next
  case Op_Reset
  with assms show ?thesis
    by (auto simp: Reset_def bits_subset_flags)
next
  case Op_BeginConstantUpdate
  show ?thesis
  proof (cases "invokes_Compile x (thePass s)")
    case False
    with assms Op_BeginConstantUpdate show ?thesis
      by (auto simp: BeginConstantUpdate_def invokes_Compile_def bits_subset_refl split: if_splits)
  next
    case True
    with assms(1) Op_BeginConstantUpdate obtain ret p1 calls1 where
      c: "Compile dev (thePass s) (deviceCalls s) = Inr (ret, p1, calls1)"
      and m: "m_dirtyMask (thePass s') = ret"
      by (auto simp: BeginConstantUpdate_def invokes_Compile_def split: sum.splits if_splits)
    from Compile_ret [OF c] show ?thesis
    proof
      assume "ret = eDirty_None"
      with c True m show ?thesis by (simp add: compile_succeeds_def bits_subset_flags)
    next
      assume "ret = workingMask (thePass s)"
      with m assms(2) show ?thesis by (simp add: bits_subset_workingMask)
    qed
  qed
next
  case Op_PrepareResourcesForUse
  show ?thesis
  proof (cases "invokes_Compile x (thePass s)")
    case False
    with assms Op_PrepareResourcesForUse show ?thesis
      by (auto simp: PrepareResourcesForUse_def invokes_Compile_def bits_subset_refl split: if_splits)
  next
    case True
    with assms(1) Op_PrepareResourcesForUse obtain ret p1 calls1 where
      c: "Compile dev (thePass s) (deviceCalls s) = Inr (ret, p1, calls1)"
      and m: "m_dirtyMask (thePass s') = ret"
      by (auto simp: PrepareResourcesForUse_def invokes_Compile_def split: sum.splits if_splits)
    from Compile_ret [OF c] show ?thesis
    proof
      assume "ret = eDirty_None"
      with c True m show ?thesis by (simp add: compile_succeeds_def bits_subset_flags)
    next
      assume "ret = workingMask (thePass s)"
      with m assms(2) show ?thesis by (simp add: bits_subset_workingMask)
    qed
  qed
next
  case (Op_Dispatch u)
  with assms show ?thesis
    by (auto simp: Dispatch_def bits_subset_refl split: if_splits)
next
  case (Op_Execute u)
  with assms show ?thesis
    by (auto simp: Execute_def BeginRenderPass_def EndRenderPass_def Dispatch_def bits_subset_refl
        split: if_splits)
qed

lemma run_mask:
  assumes "run xs s = Inr s'"
    and "bits_subset (m_dirtyMask (thePass s)) eDirty_All"
  shows "bits_subset (m_dirtyMask (thePass s')) eDirty_All
     \<and> (no_successful_compile xs s \<longrightarrow>
          bits_subset (m_dirtyMask (thePass s)) (m_dirtyMask (thePass s')))"
  using assms
proof (induction xs arbitrary: s)
  case Nil
  then show ?case by (simp add: bits_subset_refl)
next
  case (Cons a xs)
  obtain dev x where a: "a = (dev, x)" by (cases a) auto
  from Cons.prems(1) a obtain s1 where s1: "step dev x s = Inr s1" and r: "run xs s1 = Inr s'"
    by (auto split: sum.splits)
  note st = step_mask [OF s1 Cons.prems(2)]
  from Cons.IH [OF r] st have ih: "bits_subset (m_dirtyMask (thePass s')) eDirty_All"
    "no_successful_compile xs s1 \<longrightarrow> bits_subset (m_dirtyMask (thePass s1)) (m_dirtyMask (thePass s'))"
    by simp_all
  show ?case
  proof (intro conjI impI)
    show "bits_subset (m_dirtyMask (thePass s')) eDirty_All" by (rule ih(1))
  next
    assume "no_successful_compile (a # xs) s"
    with a s1 have "\<not> compile_succeeds dev x s" "no_successful_compile xs s1" by simp_all
    with st ih(2) show "bits_subset (m_dirtyMask (thePass s)) (m_dirtyMask (thePass s'))"
      by (blast intro: bits_subset_trans)
  qed
qed

subsection \<open>Pending invalidations along a run\<close>

lemma All_OR_flags:
  "eDirty_All OR eDirty_Resources = eDirty_All"
  "eDirty_All OR eDirty_Technique = eDirty_All"
  "eDirty_All OR eDirty_ResourceLayout = eDirty_All"
  "eDirty_All OR eDirty_None = eDirty_All"
  by (simp_all add: eDirty_defs)

lemma All_OR_UpdateResource: "eDirty_All OR fst (UpdateResource bp b d) = eDirty_All"
  by (simp add: UpdateResource_def All_OR_flags split: option.splits)

lemma CComputeRenderPass_pending_invalidation:
  "pending_invalidation_has_All (CComputeRenderPass dev flags)"
  by (simp add: pending_invalidation_has_All_def CComputeRenderPass_def)

lemma Compile_clears_flag:
  assumes "Compile dev p calls = Inr (ret, p', calls')"
  shows "\<not> m_bResourcesInvalidated p'"
  using Compile_keeps [OF assms] by blast

lemma SetBinding_inv:
  "pending_invalidation_has_All p \<Longrightarrow> pending_invalidation_has_All (SetBinding bp b p)"
  by (simp add: pending_invalidation_has_All_def SetBinding_def Let_def All_OR_UpdateResource)

lemma SetTechnique_inv:
  "pending_invalidation_has_All p \<Longrightarrow> pending_invalidation_has_All (SetTechnique a b c p)"
  by (simp add: pending_invalidation_has_All_def SetTechnique_def All_OR_flags)

lemma SetDispatchSize_inv:
  "pending_invalidation_has_All p \<Longrightarrow> pending_invalidation_has_All (SetDispatchSize a b c p)"
  by (simp add: pending_invalidation_has_All_def SetDispatchSize_def)

lemma OnResourceInvalidated_inv:
  "pending_invalidation_has_All p \<Longrightarrow> pending_invalidation_has_All (fst (OnResourceInvalidated p f))"
  by (simp add: pending_invalidation_has_All_def OnResourceInvalidated_def All_OR_flags)

lemma Reset_inv: "pending_invalidation_has_All (Reset dev p)"
  by (simp add: pending_invalidation_has_All_def Reset_def)


lemma BeginConstantUpdate_inv:
  assumes "BeginConstantUpdate dev p calls = Inr (p', calls')"
    and "pending_invalidation_has_All p"
  shows "pending_invalidation_has_All p'"
proof (cases "m_flags p AND eFlags_ReflectConstantBuffersFromShader \<noteq> 0 \<and> IsDirty p")
  case False
  with assms show ?thesis
    by (auto simp: BeginConstantUpdate_def pending_invalidation_has_All_def split: if_splits)
next
  case True
  with assms(1) obtain ret p1 where c: "Compile dev p calls = Inr (ret, p1, calls')"
    and p': "m_bResourcesInvalidated p' = m_bResourcesInvalidated p1"
    by (auto simp: BeginConstantUpdate_def split: sum.splits)
  from Compile_clears_flag [OF c] p' show ?thesis
    by (simp add: pending_invalidation_has_All_def)
qed

lemma PrepareResourcesForUse_inv:
  assumes "PrepareResourcesForUse dev p cl calls = Inr (p', cl', calls')"
    and "pending_invalidation_has_All p"
  shows "pending_invalidation_has_All p'"
proof (cases "\<not> m_bPendingConstantUpdate p \<and> IsDirty p")
  case False
  with assms show ?thesis
    by (auto simp: PrepareResourcesForUse_def pending_invalidation_has_All_def split: if_splits)
next
  case True
  with assms(1) obtain ret p1 where c: "Compile dev p calls = Inr (ret, p1, calls')"
    and p': "m_bResourcesInvalidated p' = m_bResourcesInvalidated p1"
    by (auto simp: PrepareResourcesForUse_def split: sum.splits if_splits)
  from Compile_clears_flag [OF c] p' show ?thesis
    by (simp add: pending_invalidation_has_All_def)
qed

lemma Dispatch_pass: "fst (Dispatch dev p cl u) = p"
  by (simp add: Dispatch_def)

lemma Execute_keeps:
  "m_dirtyMask (fst (Execute dev this0 p cl u sch)) = m_dirtyMask p
   \<and> m_bResourcesInvalidated (fst (Execute dev this0 p cl u sch)) = m_bResourcesInvalidated p"
  by (simp add: Execute_def BeginRenderPass_def EndRenderPass_def Dispatch_def)

lemma Execute_inv:
  "pending_invalidation_has_All p \<Longrightarrow>
   pending_invalidation_has_All (fst (Execute dev this0 p cl u sch))"
  by (simp add: pending_invalidation_has_All_def Execute_keeps)

lemma step_keeps_pending_invalidation:
  assumes "step dev x s = Inr s'"
    and "pending_invalidation_has_All (thePass s)"
  shows "pending_invalidation_has_All (thePass s')"
proof (cases x)
  case (Op_SetBinding bp b)
  with assms show ?thesis by (auto simp: SetBinding_inv)
next
  case (Op_SetTechnique sh t r)
  with assms show ?thesis by (auto simp: SetTechnique_inv)
next
  case (Op_SetDispatchSize a b c)
  with assms show ?thesis by (auto simp: SetDispatchSize_inv)
next
  case (Op_OnResourceInvalidated f)
  with assms show ?thesis by (auto simp: OnResourceInvalidated_inv)
next
  case Op_Reset
  with assms show ?thesis by (auto simp: Reset_inv)
next
  case Op_BeginConstantUpdate
  with assms(1) obtain p' calls' where
    "BeginConstantUpdate dev (thePass s) (deviceCalls s) = Inr (p', calls')" "thePass s' = p'"
    by (auto split: sum.splits)
  with BeginConstantUpdate_inv [OF _ assms(2)] show ?thesis by simp
next
  case Op_PrepareResourcesForUse
  with assms(1) obtain p' cl' calls' where
    "PrepareResourcesForUse dev (thePass s) (commandList s) (deviceCalls s) = Inr (p', cl', calls')"
    "thePass s' = p'"
    by (auto split: sum.splits)
  with PrepareResourcesForUse_inv [OF _ assms(2)] show ?thesis by simp
next
  case (Op_Dispatch u)
  with assms(1) have "thePass s' = fst (Dispatch dev (thePass s) (commandList s) u)"
    by (auto split: prod.splits)
  with assms(2) show ?thesis by (simp add: Dispatch_pass)
next
  case (Op_Execute u)
  with assms(1) have "thePass s' =
      fst (Execute dev (this s) (thePass s) (commandList s) u (scheduled s))"
    by (auto split: prod.splits)
  with assms(2) show ?thesis by (simp add: Execute_inv)
qed

lemma run_keeps_pending_invalidation:
  assumes "run xs s = Inr s'"
    and "pending_invalidation_has_All (thePass s)"
  shows "pending_invalidation_has_All (thePass s')"
  using assms
proof (induction xs arbitrary: s)
  case Nil
  then show ?case by simp
next
  case (Cons a xs)
  obtain dev x where a: "a = (dev, x)" by (cases a) auto
  from Cons.prems(1) a obtain s1 where s1: "step dev x s = Inr s1" and r: "run xs s1 = Inr s'"
    by (auto split: sum.splits)
  from Cons.IH [OF r step_keeps_pending_invalidation [OF s1 Cons.prems(2)]] show ?case .
qed

lemma workingMask_of_reachable:
  "pending_invalidation_has_All p \<Longrightarrow> workingMask p = m_dirtyMask p"
  by (auto simp: pending_invalidation_has_All_def workingMask_def All_OR_flags eDirty_None_def)

lemma Compile_first_call:
  assumes "Compile dev p calls = Inr (ret, p', calls')"
    and "workingMask p AND eDirty_Resources \<noteq> 0"
  shows "\<exists>rs. m_pResourceSet p = Some rs
     \<and> new_calls calls calls' \<noteq> []
     \<and> hd (new_calls calls calls') =
         Call_Update (m_resourceDesc p) (workingMask p AND (eDirty_Resources OR eDirty_ResourceLayout))
           (fst (Update dev (m_resourceDesc p)
                   (workingMask p AND (eDirty_Resources OR eDirty_ResourceLayout)) rs))
     \<and> (\<not> fst (Update dev (m_resourceDesc p)
                   (workingMask p AND (eDirty_Resources OR eDirty_ResourceLayout)) rs)
          \<longrightarrow> ret = workingMask p)"
proof -
  from assms obtain rs where rs: "m_pResourceSet p = Some rs"
    by (auto simp: Compile_unfold split: option.splits)
  define flags where "flags = workingMask p AND (eDirty_Resources OR eDirty_ResourceLayout)"
  define r0 where "r0 = Update dev (m_resourceDesc p) flags rs"
  define p2 where "p2 = p\<lparr>m_bResourcesInvalidated := False, m_bCompiled := False,
                           m_pResourceSet := Some (snd r0)\<rparr>"
  define calls1 where "calls1 = calls @ [Call_Update (m_resourceDesc p) flags True]"
  have "new_calls calls calls' \<noteq> []
     \<and> hd (new_calls calls calls') = Call_Update (m_resourceDesc p) flags (fst r0)
     \<and> (\<not> fst r0 \<longrightarrow> ret = workingMask p)"
  proof (cases "fst r0")
    case False
    with assms rs have "calls' = calls @ [Call_Update (m_resourceDesc p) flags False]"
      "ret = workingMask p"
      by (simp_all add: Compile_unfold Let_def flags_def [symmetric] r0_def [symmetric])
    with False show ?thesis by simp
  next
    case ok: True
    with assms rs
    have rl: "Compile_ResourceLayout dev (workingMask p) p2 calls1 = (ret, p', calls')"
      by (simp add: Compile_unfold Let_def flags_def [symmetric] r0_def [symmetric] p2_def calls1_def)
    from Compile_ResourceLayout_keeps [OF rl] obtain new where c: "calls' = calls1 @ new"
      by auto
    then have "new_calls calls calls' = Call_Update (m_resourceDesc p) flags True # new"
      by (simp add: calls1_def new_calls_def)
    with ok show ?thesis by simp
  qed
  with rs show ?thesis by (simp add: flags_def r0_def)
qed

lemma Compile_ret_None_iff:
  assumes "Compile dev p calls = Inr (ret, p', calls')"
  shows "ret = eDirty_None \<longleftrightarrow> (\<forall>c\<in>set (new_calls calls calls'). call_ok c)"
  using Compile_outcome [OF assms]
  by (elim disjE) (auto dest: AND_nonzero_not_None)

lemma workingMask_flag:
  "m_bResourcesInvalidated p \<Longrightarrow> workingMask p = m_dirtyMask p OR eDirty_Resources"
  "m_bResourcesInvalidated p \<Longrightarrow> workingMask p AND eDirty_Resources \<noteq> 0"
  by (simp_all add: workingMask_def eDirty_Resources_def)

subsection \<open>Concrete runs\<close>

lemma Compile_fresh_pass:
  "Compile (mock_device True True True) fresh_pass [] =
     Inr (eDirty_None, compiled_pass\<lparr>m_dirtyMask := eDirty_All\<rparr>, compiled_calls)"
  by code_simp

lemma Compile_fresh_pass_Update_fails:
  "Compile (mock_device False True True) fresh_pass [] =
     Inr (eDirty_All, fresh_pass, [Call_Update [] 3 False])"
  by code_simp

lemma Compile_layout_dirty_pass:
  "Compile (mock_device True False True) layout_dirty_pass [] =
     Inr (eDirty_ResourceLayout,
          layout_dirty_pass\<lparr>m_bCompiled := False, m_pResourceLayout := None\<rparr>,
          [Call_CreateResourceLayout
             [Layout_ResourceSet 0 [], Layout_ConstantBuffer 1 3 8, Layout_ConstantBuffer 2 5 8]
             None])"
  by code_simp

lemma Compile_invalidated_pass:
  "Compile (mock_device False True True) invalidated_pass [] =
     Inr (eDirty_Resources, compiled_pass\<lparr>m_bCompiled := False\<rparr>, [Call_Update [] 2 False])"
  by code_simp

lemma run_failed_prepare_run:
  "run failed_prepare_run fresh_sys = Inr (fresh_sys\<lparr>deviceCalls := [Call_Update [] 3 False]\<rparr>)"
  by code_simp

lemma Prepare_compiled_pass:
  "PrepareResourcesForUse (mock_device True True True) compiled_pass [] [] =
     Inr (compiled_pass,
          [Cmd_PrepareResourcesForUse 0 (Some 11),
           Cmd_PrepareInlineConstantBufferForUse 1 21 3 EShaderStage_Compute,
           Cmd_PrepareInlineConstantBufferForUse 2 22 5 EShaderStage_Compute], [])"
  by code_simp

lemma Prepare_fresh_pass_Update_fails:
  "PrepareResourcesForUse (mock_device False True True) fresh_pass [] [] =
     Inr (fresh_pass, [], [Call_Update [] 3 False])"
  by code_simp

lemma run_quiet_run:
  "run quiet_run fresh_sys = Inr (projr (run quiet_run fresh_sys))"
  by code_simp

lemma quiet_run_quiet: "no_successful_compile quiet_run fresh_sys"
  by code_simp

lemma quiet_run_mask: "m_dirtyMask (thePass (projr (run quiet_run fresh_sys))) = eDirty_All"
  by code_simp

subsection \<open>The invalidation callback\<close>

text \<open>C7: for every pass and every flags argument, \<open>OnResourceInvalidated\<close> ORs the
  Resources bit into the dirty mask and changes no other member (so a mask of None
  becomes exactly Resources), and it returns false exactly when the flags contain the
  resource-destroyed flag.\<close>

theorem OnResourceInvalidated_marks_Resources:
  "fst (OnResourceInvalidated p flags) = p\<lparr>m_dirtyMask := m_dirtyMask p OR eDirty_Resources\<rparr>
   \<and> (m_dirtyMask p = eDirty_None \<longrightarrow>
        m_dirtyMask (fst (OnResourceInvalidated p flags)) = eDirty_Resources)
   \<and> (snd (OnResourceInvalidated p flags) = False \<longleftrightarrow> flags AND eResourceDestroyed \<noteq> 0)"
  by (simp add: OnResourceInvalidated_def eDirty_None_def)

theorem OnResourceInvalidated_marks_Resources_witness:
  "m_dirtyMask compiled_pass = eDirty_None
   \<and> m_dirtyMask (fst (OnResourceInvalidated compiled_pass eResourceDestroyed)) = eDirty_Resources
   \<and> snd (OnResourceInvalidated compiled_pass eResourceDestroyed) = False
   \<and> snd (OnResourceInvalidated compiled_pass 1) = True"
  using OnResourceInvalidated_marks_Resources [of compiled_pass eResourceDestroyed]
    OnResourceInvalidated_marks_Resources [of compiled_pass 1]
  by (simp add: compiled_pass_def eResourceDestroyed_def eDirty_defs)

subsection \<open>Reset\<close>

text \<open>C6: whatever the pass was, \<open>Reset\<close> leaves the dirty mask All, the three dispatch
  dimensions zero, and the resource set, the resource layout and the pipeline state
  released (null).\<close>

theorem Reset_uncompiled:
  "m_dirtyMask (Reset dev p) = eDirty_All
   \<and> m_dispatchSizeX (Reset dev p) = 0
   \<and> m_dispatchSizeY (Reset dev p) = 0
   \<and> m_dispatchSizeZ (Reset dev p) = 0
   \<and> m_pResourceSet (Reset dev p) = None
   \<and> m_pResourceLayout (Reset dev p) = None
   \<and> m_pPipelineState (Reset dev p) = None"
  by (simp add: Reset_def)

text \<open>C9: right after \<open>Reset\<close>, \<open>PrepareResourcesForUse\<close> takes the branch of the
  pending constant update, which \<open>Reset\<close> has set: it ends the constant update and
  clears the flag. It makes no call on the device (so no \<open>Compile\<close>: the invalidation
  flag that \<open>Compile\<close> would clear is still set), records no command, and the dirty mask
  is still All.\<close>

theorem PrepareResourcesForUse_after_Reset:
  "PrepareResourcesForUse dev (Reset dev0 p) cl calls =
     Inr ((Reset dev0 p)\<lparr>m_constantManager :=
                            EndNamedConstantUpdate dev (m_constantManager (Reset dev0 p)),
                          m_bPendingConstantUpdate := False\<rparr>, cl, calls)
   \<and> m_bPendingConstantUpdate (Reset dev0 p)
   \<and> m_bResourcesInvalidated (Reset dev0 p)
   \<and> m_dirtyMask (Reset dev0 p) = eDirty_All
   \<and> eDirty_All \<noteq> eDirty_None"
  by (simp add: PrepareResourcesForUse_def Reset_def eDirty_defs)

subsection \<open>Dispatch\<close>

text \<open>C3: \<open>Dispatch\<close> never changes the pass. It records commands if and only if the
  dirty mask is None; then it records the layout, the pipeline state, the resource set at
  slot 0, the inline constant buffers at the slots from 1 on and exactly one backend
  dispatch call, with the dispatch dimensions of the pass. With any other mask it
  records nothing.\<close>

theorem Dispatch_only_when_clean:
  "fst (Dispatch dev p cl srvUsage) = p
   \<and> (snd (Dispatch dev p cl srvUsage) \<noteq> cl \<longleftrightarrow> m_dirtyMask p = eDirty_None)
   \<and> (m_dirtyMask p = eDirty_None \<longrightarrow>
        snd (Dispatch dev p cl srvUsage) =
          cl @ [Cmd_SetResourceLayout (m_pResourceLayout p),
                Cmd_SetPipelineState (m_pPipelineState p),
                Cmd_SetResources 0 (m_pResourceSet p)]
             @ map (\<lambda>(i, cb). Cmd_SetInlineConstantBuffer i (pBuffer cb) (shaderSlot cb))
                 (slots_from 1 (GetBuffers dev (m_constantManager p)))
             @ [Cmd_Dispatch (m_dispatchSizeX p) (m_dispatchSizeY p) (m_dispatchSizeZ p)]
        \<and> filter is_Dispatch (drop (length cl) (snd (Dispatch dev p cl srvUsage))) =
            [Cmd_Dispatch (m_dispatchSizeX p) (m_dispatchSizeY p) (m_dispatchSizeZ p)])
   \<and> (m_dirtyMask p \<noteq> eDirty_None \<longrightarrow> Dispatch dev p cl srvUsage = (p, cl))"
  by (simp add: Dispatch_def SetInlineConstantBuffers_append no_Dispatch_among_inline)

theorem Dispatch_only_when_clean_witness:
  "m_dirtyMask compiled_pass = eDirty_None
   \<and> filter is_Dispatch (snd (Dispatch (mock_device True True True) compiled_pass [] 0)) =
       [Cmd_Dispatch 1 1 1]
   \<and> m_dirtyMask fresh_pass \<noteq> eDirty_None
   \<and> Dispatch (mock_device True True True) fresh_pass [] 0 = (fresh_pass, [])"
  using Dispatch_only_when_clean [of "mock_device True True True" compiled_pass "[]" 0]
    Dispatch_only_when_clean [of "mock_device True True True" fresh_pass "[]" 0]
  by (simp add: compiled_pass_def fresh_pass_def CComputeRenderPass_def eDirty_defs
      no_Dispatch_among_inline)

subsection \<open>Compile\<close>

text \<open>C4: when \<open>Compile\<close> returns and every call it made on the resource set and on the
  device object factory succeeded (all the steps implicated by the mask completed), the
  mask it returns is exactly None and the compiled flag is set.\<close>

theorem Compile_success_clears_mask:
  assumes "Compile dev p calls = Inr (ret, p', calls')"
    and "\<forall>c\<in>set (new_calls calls calls'). call_ok c"
  shows "ret = eDirty_None \<and> m_bCompiled p'"
  using Compile_outcome [OF assms(1)] assms(2)
  by (elim disjE) simp_all

theorem Compile_success_clears_mask_witness:
  "Compile (mock_device True True True) fresh_pass [] =
     Inr (eDirty_None, compiled_pass\<lparr>m_dirtyMask := eDirty_All\<rparr>, compiled_calls)
   \<and> list_all call_ok (new_calls [] compiled_calls)
   \<and> m_bCompiled (compiled_pass\<lparr>m_dirtyMask := eDirty_All\<rparr>)"
proof -
  have h: "\<forall>c\<in>set (new_calls [] compiled_calls). call_ok c"
    by (simp add: compiled_calls_def new_calls_def)
  from Compile_success_clears_mask [OF Compile_fresh_pass h] Compile_fresh_pass h show ?thesis
    by (simp add: list_all_iff)
qed

text \<open>C10: a call of \<open>Compile\<close> either dereferences a null resource set (the Resources
  bit is in the mask it works from and \<open>m_pResourceSet\<close> is null) or returns. When it
  returns, successfully or not, the invalidation flag is cleared; the compiled flag,
  cleared on entry, is true exactly when the returned mask is None; the returned mask is
  None exactly when every call \<open>Compile\<close> made succeeded, and otherwise it is the dirty
  mask with Resources added if the invalidation flag was set on entry. If the flag was set
  on entry, the first call \<open>Compile\<close> makes is \<open>Update\<close> on the resource set, with the
  flags taken from the dirty mask with Resources added, and if that call fails the mask
  returned is the dirty mask with Resources added, so the pending invalidation is in it.\<close>

theorem Compile_folds_invalidation:
  "case Compile dev p calls of
     Inl e \<Rightarrow>
       m_pResourceSet p = None
       \<and> (m_dirtyMask p OR (if m_bResourcesInvalidated p then eDirty_Resources else eDirty_None))
           AND eDirty_Resources \<noteq> 0
   | Inr (ret, p', calls') \<Rightarrow>
       \<not> m_bResourcesInvalidated p'
       \<and> (m_bCompiled p' \<longleftrightarrow> ret = eDirty_None)
       \<and> (ret = eDirty_None \<longleftrightarrow> (\<forall>c\<in>set (new_calls calls calls'). call_ok c))
       \<and> (ret \<noteq> eDirty_None \<longrightarrow>
            ret = m_dirtyMask p OR (if m_bResourcesInvalidated p then eDirty_Resources else eDirty_None))
       \<and> calls' = calls @ new_calls calls calls'
       \<and> (m_bResourcesInvalidated p \<longrightarrow>
            (\<exists>rs. m_pResourceSet p = Some rs
               \<and> new_calls calls calls' \<noteq> []
               \<and> hd (new_calls calls calls') =
                   Call_Update (m_resourceDesc p)
                     ((m_dirtyMask p OR eDirty_Resources) AND (eDirty_Resources OR eDirty_ResourceLayout))
                     (fst (Update dev (m_resourceDesc p)
                        ((m_dirtyMask p OR eDirty_Resources) AND (eDirty_Resources OR eDirty_ResourceLayout))
                        rs))
               \<and> (\<not> fst (Update dev (m_resourceDesc p)
                        ((m_dirtyMask p OR eDirty_Resources) AND (eDirty_Resources OR eDirty_ResourceLayout))
                        rs)
                    \<longrightarrow> ret = m_dirtyMask p OR eDirty_Resources
                        \<and> ret AND eDirty_Resources = eDirty_Resources
                        \<and> m_dirtyMask p' = m_dirtyMask p)))"
proof (cases "Compile dev p calls")
  case (Inl e)
  then show ?thesis using Compile_Inl_iff [of dev p calls] by (auto simp: workingMask_def)
next
  case (Inr r)
  obtain ret p' calls' where r: "r = (ret, p', calls')" by (cases r) auto
  have c: "Compile dev p calls = Inr (ret, p', calls')" using Inr r by simp
  note k = Compile_keeps [OF c]
  have a: "\<not> m_bResourcesInvalidated p'" "m_dirtyMask p' = m_dirtyMask p"
    "calls' = calls @ new_calls calls calls'"
    using k by blast+
  from Compile_outcome [OF c] have b: "m_bCompiled p' \<longleftrightarrow> ret = eDirty_None"
    "ret \<noteq> eDirty_None \<longrightarrow>
       ret = m_dirtyMask p OR (if m_bResourcesInvalidated p then eDirty_Resources else eDirty_None)"
    by (elim disjE; auto dest: AND_nonzero_not_None simp: workingMask_def)+
  note n = Compile_ret_None_iff [OF c]
  have f: "m_bResourcesInvalidated p \<longrightarrow>
            (\<exists>rs. m_pResourceSet p = Some rs
               \<and> new_calls calls calls' \<noteq> []
               \<and> hd (new_calls calls calls') =
                   Call_Update (m_resourceDesc p)
                     ((m_dirtyMask p OR eDirty_Resources) AND (eDirty_Resources OR eDirty_ResourceLayout))
                     (fst (Update dev (m_resourceDesc p)
                        ((m_dirtyMask p OR eDirty_Resources) AND (eDirty_Resources OR eDirty_ResourceLayout))
                        rs))
               \<and> (\<not> fst (Update dev (m_resourceDesc p)
                        ((m_dirtyMask p OR eDirty_Resources) AND (eDirty_Resources OR eDirty_ResourceLayout))
                        rs)
                    \<longrightarrow> ret = m_dirtyMask p OR eDirty_Resources
                        \<and> ret AND eDirty_Resources = eDirty_Resources
                        \<and> m_dirtyMask p' = m_dirtyMask p))"
  proof
    assume fl: "m_bResourcesInvalidated p"
    from Compile_first_call [OF c workingMask_flag(2) [OF fl]] a(2)
    show "\<exists>rs. m_pResourceSet p = Some rs
               \<and> new_calls calls calls' \<noteq> []
               \<and> hd (new_calls calls calls') =
                   Call_Update (m_resourceDesc p)
                     ((m_dirtyMask p OR eDirty_Resources) AND (eDirty_Resources OR eDirty_ResourceLayout))
                     (fst (Update dev (m_resourceDesc p)
                        ((m_dirtyMask p OR eDirty_Resources) AND (eDirty_Resources OR eDirty_ResourceLayout))
                        rs))
               \<and> (\<not> fst (Update dev (m_resourceDesc p)
                        ((m_dirtyMask p OR eDirty_Resources) AND (eDirty_Resources OR eDirty_ResourceLayout))
                        rs)
                    \<longrightarrow> ret = m_dirtyMask p OR eDirty_Resources
                        \<and> ret AND eDirty_Resources = eDirty_Resources
                        \<and> m_dirtyMask p' = m_dirtyMask p)"
      unfolding workingMask_flag(1) [OF fl] by auto
  qed
  from a(1) b n a(3) f show ?thesis
    unfolding Inr r by (simp only: sum.case prod.case) blast
qed

theorem Compile_folds_invalidation_witness:
  "m_bResourcesInvalidated invalidated_pass
   \<and> m_dirtyMask invalidated_pass = eDirty_None
   \<and> m_bCompiled invalidated_pass
   \<and> Compile (mock_device False True True) invalidated_pass [] =
       Inr (eDirty_Resources, compiled_pass\<lparr>m_bCompiled := False\<rparr>, [Call_Update [] 2 False])
   \<and> hd (new_calls [] [Call_Update [] 2 False]) = Call_Update [] 2 False
   \<and> \<not> m_bCompiled (compiled_pass\<lparr>m_bCompiled := False\<rparr>)
   \<and> \<not> m_bResourcesInvalidated (compiled_pass\<lparr>m_bCompiled := False\<rparr>)
   \<and> eDirty_Resources \<noteq> eDirty_None"
  using Compile_folds_invalidation
      [where dev = "mock_device False True True" and p = invalidated_pass and calls = "[]"]
    Compile_invalidated_pass
  by (simp add: invalidated_pass_def compiled_pass_def eDirty_defs new_calls_def)

text \<open>C1, amended: when \<open>Compile\<close> fails at a step (some call it made did not succeed), it
  returns at once: the failing call is the last call it made and every earlier one
  succeeded. It returns the working mask, which is not None and contains the bits that
  implicated the failing step; \<open>m_dirtyMask\<close> is not written, the compiled flag is false
  and the recorded update count of the pipeline state is unchanged. The artifacts of the
  steps after the failing one are untouched: a failed \<open>Update\<close> leaves the resource
  layout, the pipeline state and the constant manager as they were, a failed layout
  creation leaves the pipeline state as it was. The members written by the failing step
  and by the steps before it are not preserved: the resource set is as the \<open>Update\<close>
  call left it, after a failed layout creation \<open>m_pResourceLayout\<close> is null, and after a
  failed pipeline state creation \<open>m_pPipelineState\<close> holds the null or invalid object
  that the factory returned; in both of these cases the constant manager has had its shader
  reflection released and, for a pass that reflects its constant buffers, allocated
  again.\<close>

theorem Compile_failure_returns_at_once:
  assumes "Compile dev p calls = Inr (ret, p', calls')"
    and "\<not> (\<forall>c\<in>set (new_calls calls calls'). call_ok c)"
  shows "calls' = calls @ new_calls calls calls'
     \<and> \<not> call_ok (last (new_calls calls calls'))
     \<and> (\<forall>c\<in>set (butlast (new_calls calls calls')). call_ok c)
     \<and> ret = workingMask p \<and> ret \<noteq> eDirty_None
     \<and> m_dirtyMask p' = m_dirtyMask p \<and> \<not> m_bCompiled p'
     \<and> m_currentPsoUpdateCount p' = m_currentPsoUpdateCount p
     \<and> m_pResourceSet p' =
         (if workingMask p AND eDirty_Resources \<noteq> 0
          then map_option (\<lambda>rs. snd (Update dev (m_resourceDesc p)
                  (workingMask p AND (eDirty_Resources OR eDirty_ResourceLayout)) rs))
                 (m_pResourceSet p)
          else m_pResourceSet p)
     \<and> (case last (new_calls calls calls') of
          Call_Update d f r \<Rightarrow>
            ret AND eDirty_Resources \<noteq> 0
            \<and> m_pResourceLayout p' = m_pResourceLayout p
            \<and> m_pPipelineState p' = m_pPipelineState p
            \<and> m_constantManager p' = m_constantManager p
        | Call_CreateResourceLayout d r \<Rightarrow>
            ret AND (eDirty_Technique OR eDirty_ResourceLayout) \<noteq> 0
            \<and> r = None \<and> m_pResourceLayout p' = None
            \<and> m_pPipelineState p' = m_pPipelineState p
            \<and> m_constantManager p' = reflected dev p
        | Call_CreateComputePSO d r \<Rightarrow>
            ret AND (eDirty_Technique OR eDirty_ResourceLayout) \<noteq> 0
            \<and> m_pResourceLayout p' \<noteq> None
            \<and> m_pPipelineState p' = r
            \<and> m_constantManager p' = reflected dev p)"
proof -
  note k = Compile_keeps [OF assms(1)]
  note rs = Compile_resource_set [OF assms(1)]
  from Compile_outcome [OF assms(1)] have "calls' = calls @ new_calls calls calls'
     \<and> \<not> call_ok (last (new_calls calls calls'))
     \<and> (\<forall>c\<in>set (butlast (new_calls calls calls')). call_ok c)
     \<and> ret = workingMask p \<and> ret \<noteq> eDirty_None
     \<and> m_dirtyMask p' = m_dirtyMask p \<and> \<not> m_bCompiled p'
     \<and> m_currentPsoUpdateCount p' = m_currentPsoUpdateCount p
     \<and> (case last (new_calls calls calls') of
          Call_Update d f r \<Rightarrow>
            ret AND eDirty_Resources \<noteq> 0
            \<and> m_pResourceLayout p' = m_pResourceLayout p
            \<and> m_pPipelineState p' = m_pPipelineState p
            \<and> m_constantManager p' = m_constantManager p
        | Call_CreateResourceLayout d r \<Rightarrow>
            ret AND (eDirty_Technique OR eDirty_ResourceLayout) \<noteq> 0
            \<and> r = None \<and> m_pResourceLayout p' = None
            \<and> m_pPipelineState p' = m_pPipelineState p
            \<and> m_constantManager p' = reflected dev p
        | Call_CreateComputePSO d r \<Rightarrow>
            ret AND (eDirty_Technique OR eDirty_ResourceLayout) \<noteq> 0
            \<and> m_pResourceLayout p' \<noteq> None
            \<and> m_pPipelineState p' = r
            \<and> m_constantManager p' = reflected dev p)"
  proof (elim disjE, goal_cases)
    case 1
    with assms(2) show ?case by simp
  next
    case 2
    with k show ?case by (auto dest: AND_nonzero_not_None)
  next
    case 3
    with k updateCalls_ok [of p] show ?case
      by (auto dest: AND_nonzero_not_None simp: butlast_append)
  next
    case 4
    with k updateCalls_ok [of p] show ?case
      by (auto dest: AND_nonzero_not_None simp: butlast_append)
  qed
  with rs show ?thesis by (elim conjE) (intro conjI; assumption)
qed

theorem Compile_failure_returns_at_once_witness:
  "Compile (mock_device True False True) layout_dirty_pass [] =
       Inr (eDirty_ResourceLayout,
            layout_dirty_pass\<lparr>m_bCompiled := False, m_pResourceLayout := None\<rparr>,
            [Call_CreateResourceLayout
               [Layout_ResourceSet 0 [], Layout_ConstantBuffer 1 3 8, Layout_ConstantBuffer 2 5 8]
               None])
   \<and> m_pPipelineState (layout_dirty_pass\<lparr>m_bCompiled := False, m_pResourceLayout := None\<rparr>) =
       m_pPipelineState layout_dirty_pass
   \<and> eDirty_ResourceLayout \<noteq> eDirty_None"
proof -
  have h: "\<not> (\<forall>c\<in>set (new_calls [] [Call_CreateResourceLayout
               [Layout_ResourceSet 0 [], Layout_ConstantBuffer 1 3 8, Layout_ConstantBuffer 2 5 8]
               None]). call_ok c)"
    by (simp add: new_calls_def)
  from Compile_failure_returns_at_once [OF Compile_layout_dirty_pass h] Compile_layout_dirty_pass
  show ?thesis
    by (simp add: new_calls_def)
qed

text \<open>C1 as stated fails: the compiled pass with a dirty layout holds the resource layout
  \<open>Some 3\<close>; layout creation returns null, \<open>Compile\<close> fails, and the resource layout of
  the pass is null afterwards.\<close>

theorem Compile_failure_overwrites_layout:
  "m_pResourceLayout layout_dirty_pass = Some 3
   \<and> Compile (mock_device True False True) layout_dirty_pass [] =
       Inr (eDirty_ResourceLayout,
            layout_dirty_pass\<lparr>m_bCompiled := False, m_pResourceLayout := None\<rparr>,
            [Call_CreateResourceLayout
               [Layout_ResourceSet 0 [], Layout_ConstantBuffer 1 3 8, Layout_ConstantBuffer 2 5 8]
               None])
   \<and> m_pResourceLayout (layout_dirty_pass\<lparr>m_bCompiled := False, m_pResourceLayout := None\<rparr>) = None"
  using Compile_layout_dirty_pass by (simp add: layout_dirty_pass_def compiled_pass_def)

text \<open>C2: take any pass state reached by a sequence of operations from a state in which a
  pending invalidation flag comes with the mask All (a constructed pass is such a state).
  After a call of \<open>Compile\<close> that fails in that state, the dirty mask is unchanged from
  its value before the call: \<open>Compile\<close> has not written \<open>m_dirtyMask\<close>, and the mask it
  returns, which its callers store, is that same value and is not None. A subsequent
  \<open>Dispatch\<close> records no command, before and after the returned mask is stored.\<close>

theorem Compile_failure_keeps_mask:
  assumes "run xs s0 = Inr s"
    and "pending_invalidation_has_All (thePass s0)"
    and "Compile dev (thePass s) calls = Inr (ret, p', calls')"
    and "\<not> (\<forall>c\<in>set (new_calls calls calls'). call_ok c)"
  shows "m_dirtyMask p' = m_dirtyMask (thePass s)
     \<and> ret = m_dirtyMask (thePass s) \<and> ret \<noteq> eDirty_None
     \<and> Dispatch dev1 p' cl srvUsage = (p', cl)
     \<and> Dispatch dev1 (p'\<lparr>m_dirtyMask := ret\<rparr>) cl srvUsage = (p'\<lparr>m_dirtyMask := ret\<rparr>, cl)"
proof -
  have i: "pending_invalidation_has_All (thePass s)"
    by (rule run_keeps_pending_invalidation [OF assms(1,2)])
  from Compile_outcome [OF assms(3)] assms(4)
  have r: "ret = workingMask (thePass s)" "ret \<noteq> eDirty_None"
    by (elim disjE; auto dest: AND_nonzero_not_None)+
  from Compile_keeps [OF assms(3)] have m: "m_dirtyMask p' = m_dirtyMask (thePass s)" by blast
  from r(1) workingMask_of_reachable [OF i] have e: "ret = m_dirtyMask (thePass s)" by simp
  from r(2) m e have "Dispatch dev1 p' cl srvUsage = (p', cl)"
    "Dispatch dev1 (p'\<lparr>m_dirtyMask := ret\<rparr>) cl srvUsage = (p'\<lparr>m_dirtyMask := ret\<rparr>, cl)"
    by (simp_all add: Dispatch_def)
  with r(2) m e show ?thesis by blast
qed

theorem Compile_failure_keeps_mask_witness:
  "run failed_prepare_run fresh_sys = Inr (fresh_sys\<lparr>deviceCalls := [Call_Update [] 3 False]\<rparr>)
   \<and> pending_invalidation_has_All (thePass fresh_sys)
   \<and> Compile (mock_device False True True) fresh_pass [] =
       Inr (eDirty_All, fresh_pass, [Call_Update [] 3 False])
   \<and> m_dirtyMask fresh_pass = eDirty_All
   \<and> Dispatch (mock_device True True True) fresh_pass [] 0 = (fresh_pass, [])"
proof -
  have i: "pending_invalidation_has_All (thePass fresh_sys)"
    by (simp add: fresh_sys_def fresh_pass_def CComputeRenderPass_pending_invalidation)
  have c: "Compile (mock_device False True True)
      (thePass (fresh_sys\<lparr>deviceCalls := [Call_Update [] 3 False]\<rparr>)) [] =
       Inr (eDirty_All, fresh_pass, [Call_Update [] 3 False])"
    using Compile_fresh_pass_Update_fails by (simp add: fresh_sys_def)
  have h: "\<not> (\<forall>c\<in>set (new_calls [] [Call_Update [] 3 False]). call_ok c)"
    by (simp add: new_calls_def)
  from Compile_failure_keeps_mask [OF run_failed_prepare_run i c h, where ?dev1.0 = "mock_device True True True"
      and cl = "[]" and srvUsage = 0]
    run_failed_prepare_run i Compile_fresh_pass_Update_fails
  show ?thesis by (simp add: fresh_sys_def)
qed

subsection \<open>Bind slots\<close>

text \<open>C5: the layout description that \<open>Compile\<close> hands to the factory has the resource
  set at bind slot 0, followed by one entry per inline constant buffer of the constant
  manager, in its order, at the slots 1, 2, ...; and \<open>PrepareResourcesForUse\<close>, when the
  dirty mask is None after its compile attempt, records the prepare call of the resource
  set at slot 0 followed by the prepare calls of the inline constant buffers, in order, at
  the slots 1, 2, ... (and records nothing when the mask is not None).\<close>

theorem layout_and_prepare_slots:
  "(Compile dev p calls = Inr (ret, p', calls') \<longrightarrow>
      Call_CreateResourceLayout d r \<in> set (new_calls calls calls') \<longrightarrow>
      d = Layout_ResourceSet 0 (m_resourceDesc p) #
          map (\<lambda>(i, cb). Layout_ConstantBuffer i (shaderSlot cb) (shaderStages cb))
            (slots_from 1 (GetBuffers dev (reflected dev p))))
   \<and> (PrepareResourcesForUse dev q cl qcalls = Inr (q', cl', qcalls') \<longrightarrow>
        (m_dirtyMask q' = eDirty_None \<longrightarrow>
           cl' = cl @ Cmd_PrepareResourcesForUse 0 (m_pResourceSet q') #
                 map (\<lambda>(i, cb). Cmd_PrepareInlineConstantBufferForUse i (pBuffer cb) (shaderSlot cb)
                         EShaderStage_Compute)
                   (slots_from 1 (GetBuffers dev (m_constantManager q'))))
        \<and> (m_dirtyMask q' \<noteq> eDirty_None \<longrightarrow> cl' = cl))
   \<and> map fst (slots_from 1 cbs) = map (\<lambda>i. 1 + int i) [0..<length cbs]
   \<and> map snd (slots_from 1 cbs) = cbs"
proof (intro conjI impI)
  assume "Compile dev p calls = Inr (ret, p', calls')"
    and "Call_CreateResourceLayout d r \<in> set (new_calls calls calls')"
  then have "d = layoutDescOf dev p" by (rule Compile_layout_call)
  then show "d = Layout_ResourceSet 0 (m_resourceDesc p) #
          map (\<lambda>(i, cb). Layout_ConstantBuffer i (shaderSlot cb) (shaderStages cb))
            (slots_from 1 (GetBuffers dev (reflected dev p)))"
    by (simp add: layoutDescOf_def)
next
  assume "PrepareResourcesForUse dev q cl qcalls = Inr (q', cl', qcalls')"
    and "m_dirtyMask q' = eDirty_None"
  then show "cl' = cl @ Cmd_PrepareResourcesForUse 0 (m_pResourceSet q') #
                 map (\<lambda>(i, cb). Cmd_PrepareInlineConstantBufferForUse i (pBuffer cb) (shaderSlot cb)
                         EShaderStage_Compute)
                   (slots_from 1 (GetBuffers dev (m_constantManager q')))"
    by (auto simp: PrepareResourcesForUse_def PrepareInlineConstantBuffers_append
        split: if_splits sum.splits)
next
  assume "PrepareResourcesForUse dev q cl qcalls = Inr (q', cl', qcalls')"
    and "m_dirtyMask q' \<noteq> eDirty_None"
  then show "cl' = cl"
    by (auto simp: PrepareResourcesForUse_def split: if_splits sum.splits)
qed (simp_all add: slots_from_fst slots_from_snd)

theorem layout_and_prepare_slots_witness:
  "Compile (mock_device True True True) fresh_pass [] =
     Inr (eDirty_None, compiled_pass\<lparr>m_dirtyMask := eDirty_All\<rparr>, compiled_calls)
   \<and> compiled_calls ! 1 =
       Call_CreateResourceLayout
         [Layout_ResourceSet 0 [], Layout_ConstantBuffer 1 3 8, Layout_ConstantBuffer 2 5 8] (Some 3)
   \<and> PrepareResourcesForUse (mock_device True True True) compiled_pass [] [] =
       Inr (compiled_pass,
            [Cmd_PrepareResourcesForUse 0 (Some 11),
             Cmd_PrepareInlineConstantBufferForUse 1 21 3 EShaderStage_Compute,
             Cmd_PrepareInlineConstantBufferForUse 2 22 5 EShaderStage_Compute], [])
   \<and> m_dirtyMask compiled_pass = eDirty_None
   \<and> PrepareResourcesForUse (mock_device False True True) fresh_pass [] [] =
       Inr (fresh_pass, [], [Call_Update [] 3 False])
   \<and> m_dirtyMask fresh_pass \<noteq> eDirty_None"
proof -
  have i: "Call_CreateResourceLayout
         [Layout_ResourceSet 0 [], Layout_ConstantBuffer 1 3 8, Layout_ConstantBuffer 2 5 8] (Some 3)
       \<in> set (new_calls [] compiled_calls)"
    by (simp add: compiled_calls_def new_calls_def)
  have m: "m_dirtyMask compiled_pass = eDirty_None" "m_dirtyMask fresh_pass \<noteq> eDirty_None"
    by (simp_all add: compiled_pass_def fresh_pass_def CComputeRenderPass_def eDirty_defs)
  from layout_and_prepare_slots
      [where dev = "mock_device True True True" and p = fresh_pass and calls = "[]"
      and ret = eDirty_None and p' = "compiled_pass\<lparr>m_dirtyMask := eDirty_All\<rparr>"
      and calls' = compiled_calls
      and d = "[Layout_ResourceSet 0 [], Layout_ConstantBuffer 1 3 8, Layout_ConstantBuffer 2 5 8]"
      and r = "Some 3" and q = compiled_pass and cl = "[]" and qcalls = "[]" and q' = compiled_pass
      and cl' = "[Cmd_PrepareResourcesForUse 0 (Some 11),
        Cmd_PrepareInlineConstantBufferForUse 1 21 3 EShaderStage_Compute,
        Cmd_PrepareInlineConstantBufferForUse 2 22 5 EShaderStage_Compute]" and qcalls' = "[]"]
    layout_and_prepare_slots
      [where dev = "mock_device False True True" and q = fresh_pass and cl = "[]" and qcalls = "[]"
      and q' = fresh_pass and cl' = "[]" and qcalls' = "[Call_Update [] 3 False]"]
    Compile_fresh_pass i m Prepare_compiled_pass Prepare_fresh_pass_Update_fails
  show ?thesis by (simp add: compiled_calls_def)
qed

subsection \<open>Sequences of operations\<close>

text \<open>C8: along every sequence of operations (binding mutations, technique changes,
  invalidation callbacks, \<open>Reset\<close>, \<open>BeginConstantUpdate\<close>, \<open>PrepareResourcesForUse\<close>,
  \<open>Dispatch\<close>, \<open>Execute\<close>) started with a dirty mask within All, the mask stays within
  All; if no operation of the sequence ran a successful \<open>Compile\<close>, every bit set at the
  start is set at the end; and whatever operation comes next either keeps every bit of
  the mask or is one whose call of \<open>Compile\<close> returned None.\<close>

theorem dirty_mask_never_decreases:
  assumes "run xs s = Inr s'"
    and "bits_subset (m_dirtyMask (thePass s)) eDirty_All"
  shows "bits_subset (m_dirtyMask (thePass s')) eDirty_All
     \<and> (no_successful_compile xs s \<longrightarrow>
          bits_subset (m_dirtyMask (thePass s)) (m_dirtyMask (thePass s')))
     \<and> (\<forall>dev x s''. step dev x s' = Inr s'' \<longrightarrow>
          bits_subset (m_dirtyMask (thePass s')) (m_dirtyMask (thePass s''))
          \<or> compile_succeeds dev x s')"
  using run_mask [OF assms] step_mask by blast

theorem dirty_mask_never_decreases_witness:
  "bits_subset (m_dirtyMask (thePass fresh_sys)) eDirty_All
   \<and> no_successful_compile quiet_run fresh_sys
   \<and> m_dirtyMask (thePass (projr (run quiet_run fresh_sys))) = eDirty_All
   \<and> bits_subset (m_dirtyMask (thePass fresh_sys))
       (m_dirtyMask (thePass (projr (run quiet_run fresh_sys))))"
proof -
  have h: "bits_subset (m_dirtyMask (thePass fresh_sys)) eDirty_All"
    by (simp add: fresh_sys_def fresh_pass_def CComputeRenderPass_def bits_subset_refl)
  from dirty_mask_never_decreases [OF run_quiet_run h] h quiet_run_quiet quiet_run_mask
  show ?thesis
    by simp
qed

end
